theory Spec2Isabelle
  imports Complex_Main "HOL-Library.AList"
begin

section \<open>Python values reaching \<open>geocode_check.py\<close>\<close>

text \<open>
  The script is dynamically typed: a cache file or a provider payload is whatever
  \<open>json.load\<close> hands back, and several fields of \<open>GeocodeResult\<close> are copied from
  there without a conversion. The model therefore carries Python run-time values.

  A Python \<open>float\<close> is a finite number, an infinity or a NaN. Finite values are carried as
  reals (every double is one): comparisons of floats are exact in Python, and only they
  decide the range checks below. Where the script computes with floats or converts to
  one, the result is rounded by the arithmetic of the machine, which is a parameter of the
  model (\<open>float_ops\<close> below). The sign of zero is not modelled.
\<close>

datatype pyfloat = Fin real | PosInf | NegInf | NaN

text \<open>\<open>json\<close>: the values of \<open>json.load\<close>; \<open>JNull\<close> is Python's \<open>None\<close>, a \<open>JDict\<close>
  lists the items of a \<open>dict\<close> in insertion order.\<close>

datatype json =
    JNull
  | JBool bool
  | JInt int
  | JFloat pyfloat
  | JStr string
  | JList "json list"
  | JDict "(string \<times> json) list"

text \<open>The exceptions the script can meet; all of them are subclasses of \<open>Exception\<close>.
  \<open>TransportError\<close> stands for what \<open>urlopen\<close>, \<open>read\<close>, \<open>decode\<close> and \<open>open\<close> raise.\<close>

datatype py_exn = ValueError | TypeError | AttributeError | OverflowError | TransportError

subsection \<open>Comparison of floats\<close>

fun float_le :: "pyfloat \<Rightarrow> pyfloat \<Rightarrow> bool" where
  "float_le NaN _ = False"
| "float_le _ NaN = False"
| "float_le NegInf _ = True"
| "float_le _ PosInf = True"
| "float_le (Fin a) (Fin b) = (a \<le> b)"
| "float_le PosInf _ = False"
| "float_le (Fin a) NegInf = False"

fun float_lt :: "pyfloat \<Rightarrow> pyfloat \<Rightarrow> bool" where
  "float_lt NaN _ = False"
| "float_lt _ NaN = False"
| "float_lt PosInf _ = False"
| "float_lt _ NegInf = False"
| "float_lt (Fin a) (Fin b) = (a < b)"
| "float_lt NegInf _ = True"
| "float_lt (Fin a) PosInf = True"

subsection \<open>Strings\<close>

text \<open>
  Python strings are sequences of code points; here they are \<open>string\<close>, a \<open>char\<close> standing
  for the code point of its number, so that only code points below 256 occur.
  \<open>is_space\<close> is \<open>str.isspace\<close> on them: the codes 9 to 13, 28 to 32, 133 and 160; it is what
  \<open>str.strip\<close> and \<open>str.split\<close> take for whitespace. The builtins \<open>float\<close> and \<open>int\<close> skip
  less on plain text: the codes 9 to 13 and 32 (\<open>is_c_space\<close>). Digits are the ASCII ones,
  and \<open>upper\<close> and \<open>lower\<close> change the ASCII letters only. Of \<open>is_space\<close> the proofs about
  addresses use only that it holds of the space character.
\<close>

definition is_space :: "char \<Rightarrow> bool" where
  "is_space c \<longleftrightarrow>
     (let n = (of_char c :: nat)
      in (9 \<le> n \<and> n \<le> 13) \<or> (28 \<le> n \<and> n \<le> 32) \<or> n = 133 \<or> n = 160)"

definition is_c_space :: "char \<Rightarrow> bool" where
  "is_c_space c \<longleftrightarrow> (let n = (of_char c :: nat) in (9 \<le> n \<and> n \<le> 13) \<or> n = 32)"

definition is_digit :: "char \<Rightarrow> bool" where
  "is_digit c \<longleftrightarrow> (let n = (of_char c :: nat) in 48 \<le> n \<and> n \<le> 57)"

definition digit_val :: "char \<Rightarrow> nat" where
  "digit_val c = (of_char c :: nat) - 48"

definition upper_char :: "char \<Rightarrow> char" where
  "upper_char c =
     (case map_of (zip ''abcdefghijklmnopqrstuvwxyz'' ''ABCDEFGHIJKLMNOPQRSTUVWXYZ'') c of
        None \<Rightarrow> c
      | Some u \<Rightarrow> u)"

definition lower_char :: "char \<Rightarrow> char" where
  "lower_char c =
     (case map_of (zip ''ABCDEFGHIJKLMNOPQRSTUVWXYZ'' ''abcdefghijklmnopqrstuvwxyz'') c of
        None \<Rightarrow> c
      | Some l \<Rightarrow> l)"

definition upper :: "string \<Rightarrow> string" where
  "upper s = map upper_char s"

definition lower :: "string \<Rightarrow> string" where
  "lower s = map lower_char s"

text \<open>\<open>str.strip()\<close>: whitespace removed at both ends.\<close>

definition strip :: "string \<Rightarrow> string" where
  "strip s = rev (dropWhile is_space (rev (dropWhile is_space s)))"

text \<open>The whitespace \<open>float\<close> and \<open>int\<close> skip at both ends of their text.\<close>

definition c_strip :: "string \<Rightarrow> string" where
  "c_strip s = rev (dropWhile is_c_space (rev (dropWhile is_c_space s)))"

text \<open>\<open>str.split()\<close> with no separator: the maximal runs of non-whitespace, in order.
  The first argument is the word being read.\<close>

fun split_acc :: "string \<Rightarrow> string \<Rightarrow> string list" where
  "split_acc w [] = (if w = [] then [] else [w])"
| "split_acc w (c # cs) =
     (if is_space c then (if w = [] then split_acc [] cs else w # split_acc [] cs)
      else split_acc (w @ [c]) cs)"

definition split_ws :: "string \<Rightarrow> string list" where
  "split_ws s = split_acc [] s"

text \<open>\<open>sep.join(words)\<close>.\<close>

fun join :: "string \<Rightarrow> string list \<Rightarrow> string" where
  "join sep [] = []"
| "join sep [w] = w"
| "join sep (w # v # ws) = w @ sep @ join sep (v # ws)"

text \<open>\<open>_normalize_address\<close>: \<open>" ".join(address.strip().split())\<close>.\<close>

definition normalize_address :: "string \<Rightarrow> string" where
  "normalize_address address = join '' '' (split_ws (strip address))"

subsection \<open>The builtins \<open>float\<close>, \<open>int\<close>, \<open>bool\<close> and \<open>str\<close>\<close>

text \<open>A digit part of a numeric literal: digits, with single underscores between them.\<close>

fun digitpart_ok :: "string \<Rightarrow> bool" where
  "digitpart_ok [] = False"
| "digitpart_ok [c] = is_digit c"
| "digitpart_ok (c # d # cs) =
     (is_digit c \<and> (if d = CHR ''_'' then digitpart_ok cs else digitpart_ok (d # cs)))"

definition digits_value :: "string \<Rightarrow> nat" where
  "digits_value ds = foldl (\<lambda>a c. 10 * a + digit_val c) 0 (filter is_digit ds)"

text \<open>The floating-point arithmetic of the machine is a parameter of the model:
  \<^item> \<open>rnd\<close>, the double nearest to a real: what a conversion from text or from an \<open>int\<close>
    and each of \<open>+\<close>, \<open>-\<close>, \<open>*\<close>, \<open>/\<close> returns for its exact result;
  \<^item> \<open>fsin\<close>, \<open>fcos\<close>, \<open>fsqrt\<close>, \<open>fatan2\<close>: \<open>math.sin\<close>, \<open>math.cos\<close>, \<open>math.sqrt\<close> (on
    an argument that is not negative) and \<open>math.atan2\<close>;
  \<^item> \<open>fsquare\<close>, the power \<open>x ** 2\<close>;
  \<^item> \<open>deg_to_rad\<close>, the double that \<open>math.radians\<close> multiplies by.\<close>

record float_ops =
  rnd :: "real \<Rightarrow> real"
  fsin :: "real \<Rightarrow> real"
  fcos :: "real \<Rightarrow> real"
  fsqrt :: "real \<Rightarrow> real"
  fatan2 :: "real \<Rightarrow> real \<Rightarrow> real"
  fsquare :: "real \<Rightarrow> real"
  deg_to_rad :: real

text \<open>A real becomes a double: the nearest one, and an infinity beyond the largest double
  (the threshold is the midpoint between the largest double and \<open>2 ^ 1024\<close>).\<close>

definition to_double :: "float_ops \<Rightarrow> real \<Rightarrow> pyfloat" where
  "to_double ops r =
     (if 2 ^ 1024 - 2 ^ 970 \<le> r then PosInf
      else if r \<le> - (2 ^ 1024 - 2 ^ 970) then NegInf
      else Fin (rnd ops r))"

text \<open>An optional sign in front of a literal: the sign and the rest.\<close>

definition take_sign :: "string \<Rightarrow> bool \<times> string" where
  "take_sign t =
     (case t of
        [] \<Rightarrow> (False, [])
      | c # cs \<Rightarrow>
          if c = CHR ''-'' then (True, cs) else if c = CHR ''+'' then (False, cs) else (False, t))"

text \<open>The exponent of a float literal (the text after \<open>e\<close> or \<open>E\<close>).\<close>

definition exponent_of :: "string \<Rightarrow> int option" where
  "exponent_of t =
     (let (neg, ds) = take_sign t in
      if digitpart_ok ds
      then Some (if neg then - int (digits_value ds) else int (digits_value ds))
      else None)"

text \<open>The unsigned decimal literals \<open>float\<close> accepts:
  \<open>digitpart ["." [digitpart]] [exponent]\<close> and \<open>"." digitpart [exponent]\<close>.\<close>

definition decimal_of :: "string \<Rightarrow> real option" where
  "decimal_of t =
     (let is_e = (\<lambda>c. c = CHR ''e'' \<or> c = CHR ''E'');
          mant = takeWhile (\<lambda>c. \<not> is_e c) t;
          rest = dropWhile (\<lambda>c. \<not> is_e c) t;
          ip = takeWhile (\<lambda>c. c \<noteq> CHR ''.'') mant;
          fr = drop 1 (dropWhile (\<lambda>c. c \<noteq> CHR ''.'') mant);
          ex = (if rest = [] then Some 0 else exponent_of (drop 1 rest))
      in if (ip = [] \<and> fr = []) \<or> \<not> (ip = [] \<or> digitpart_ok ip) \<or> \<not> (fr = [] \<or> digitpart_ok fr)
         then None
         else (case ex of
                 None \<Rightarrow> None
               | Some e \<Rightarrow>
                   (let m = real (digits_value (ip @ fr));
                        k = e - int (length (filter is_digit fr))
                    in Some (if 0 \<le> k then m * 10 ^ nat k else m / 10 ^ nat (- k)))))"

text \<open>\<open>float(text)\<close> for a \<open>str\<close>: surrounding whitespace is ignored; after an optional sign
  come \<open>inf\<close>, \<open>infinity\<close> or \<open>nan\<close> in any case, or a decimal literal, which is rounded to
  the nearest double. Anything else raises \<open>ValueError\<close>, the only exception \<open>float\<close> raises
  on a string.\<close>

definition py_float :: "float_ops \<Rightarrow> string \<Rightarrow> py_exn + pyfloat" where
  "py_float ops text =
     (let (neg, t) = take_sign (c_strip text);
          l = lower t
      in if l = ''inf'' \<or> l = ''infinity'' then Inr (if neg then NegInf else PosInf)
         else if l = ''nan'' then Inr NaN
         else (case decimal_of t of
                 None \<Rightarrow> Inl ValueError
               | Some r \<Rightarrow> Inr (to_double ops (if neg then - r else r))))"

text \<open>\<open>int(text)\<close> for a \<open>str\<close> in base 10 (the interpreter's limit on the number of
  digits is not modelled).\<close>

definition py_int_of_text :: "string \<Rightarrow> py_exn + int" where
  "py_int_of_text text =
     (let (neg, ds) = take_sign (c_strip text) in
      if digitpart_ok ds
      then Inr (if neg then - int (digits_value ds) else int (digits_value ds))
      else Inl ValueError)"

text \<open>\<open>int(v)\<close>: a float is truncated towards zero, infinities and NaN raise, \<open>None\<close>, lists
  and dicts are a \<open>TypeError\<close>.\<close>

fun py_int :: "json \<Rightarrow> py_exn + int" where
  "py_int (JInt i) = Inr i"
| "py_int (JBool b) = Inr (if b then 1 else 0)"
| "py_int (JFloat (Fin r)) = Inr (if 0 \<le> r then \<lfloor>r\<rfloor> else \<lceil>r\<rceil>)"
| "py_int (JFloat NaN) = Inl ValueError"
| "py_int (JFloat _) = Inl OverflowError"
| "py_int (JStr s) = py_int_of_text s"
| "py_int _ = Inl TypeError"

text \<open>\<open>bool(v)\<close>, the truth value Python gives \<open>v\<close> in \<open>v or d\<close> and \<open>if v\<close>.\<close>

fun py_bool :: "json \<Rightarrow> bool" where
  "py_bool JNull = False"
| "py_bool (JBool b) = b"
| "py_bool (JInt i) = (i \<noteq> 0)"
| "py_bool (JFloat (Fin r)) = (r \<noteq> 0)"
| "py_bool (JFloat _) = True"
| "py_bool (JStr s) = (s \<noteq> [])"
| "py_bool (JList xs) = (xs \<noteq> [])"
| "py_bool (JDict kvs) = (kvs \<noteq> [])"

text \<open>\<open>str(v)\<close> is \<open>v\<close> itself for a string. How Python prints the other values (the
  shortest repr of a float, the repr of a list or dict) is a parameter \<open>repr\<close> of the
  model: nothing below depends on more than that it is a string.\<close>

definition py_str :: "(json \<Rightarrow> string) \<Rightarrow> json \<Rightarrow> string" where
  "py_str repr v = (case v of JStr s \<Rightarrow> s | _ \<Rightarrow> repr v)"

text \<open>\<open>d.get(k)\<close> and \<open>d.get(k, default)\<close> on the items of a dict.\<close>

definition dict_get :: "(string \<times> json) list \<Rightarrow> string \<Rightarrow> json \<Rightarrow> json" where
  "dict_get d k dflt = (case map_of d k of None \<Rightarrow> dflt | Some v \<Rightarrow> v)"

text \<open>\<open>f"{n}"\<close> for an \<open>int\<close>: its decimal digits.\<close>

fun str_nat :: "nat \<Rightarrow> string" where
  "str_nat n =
     (if n < 10 then [''0123456789'' ! n]
      else str_nat (n div 10) @ [''0123456789'' ! (n mod 10)])"

declare str_nat.simps [simp del]

definition str_int :: "int \<Rightarrow> string" where
  "str_int i = (if i < 0 then CHR ''-'' # str_nat (nat (- i)) else str_nat (nat i))"

section \<open>Coordinates\<close>

text \<open>\<open>_parse_float\<close>. For a string this is the source line by line: \<open>None\<close> for blank
  text, \<open>float(text)\<close> otherwise, with \<open>ValueError\<close> caught and nothing else. The function is
  also called on the \<open>lat\<close> and \<open>lng\<close> of a provider payload, which may be any value:
  \<open>str\<close> of a float reads back as that float, \<open>str\<close> of an \<open>int\<close> as the double nearest
  to the number, and the text of \<open>True\<close>, \<open>False\<close>, a list or a dict is no float literal.\<close>

definition parse_float :: "float_ops \<Rightarrow> json \<Rightarrow> py_exn + pyfloat option" where
  "parse_float ops v =
     (case v of
        JNull \<Rightarrow> Inr None
      | JStr s \<Rightarrow>
          (let text = strip s in
           if text = [] then Inr None
           else (case py_float ops text of
                   Inr f \<Rightarrow> Inr (Some f)
                 | Inl ValueError \<Rightarrow> Inr None
                 | Inl e \<Rightarrow> Inl e))
      | JFloat f \<Rightarrow> Inr (Some f)
      | JInt i \<Rightarrow> Inr (Some (to_double ops (real_of_int i)))
      | _ \<Rightarrow> Inr None)"

text \<open>An \<open>Optional[float]\<close> as a Python value.\<close>

definition of_opt :: "pyfloat option \<Rightarrow> json" where
  "of_opt v = (case v of None \<Rightarrow> JNull | Some f \<Rightarrow> JFloat f)"

text \<open>The number Python compares with a float: an \<open>int\<close> (and a \<open>bool\<close>, which is one) is
  compared by its exact value; comparing anything else with a float is a \<open>TypeError\<close>.\<close>

fun num_of :: "json \<Rightarrow> pyfloat option" where
  "num_of (JFloat f) = Some f"
| "num_of (JInt i) = Some (Fin (real_of_int i))"
| "num_of (JBool b) = Some (Fin (if b then 1 else 0))"
| "num_of _ = None"

text \<open>\<open>_is_valid_lat_lng\<close>. The chained comparison stops at the first one that is false,
  so a longitude is only looked at when the latitude is in range.\<close>

definition is_valid_lat_lng :: "json \<Rightarrow> json \<Rightarrow> py_exn + bool" where
  "is_valid_lat_lng lat lng =
     (if lat = JNull \<or> lng = JNull then Inr False
      else (case num_of lat of
              None \<Rightarrow> Inl TypeError
            | Some la \<Rightarrow>
                if \<not> (float_le (Fin (- 90)) la \<and> float_le la (Fin 90)) then Inr False
                else (case num_of lng of
                        None \<Rightarrow> Inl TypeError
                      | Some lo \<Rightarrow> Inr (float_le (Fin (- 180)) lo \<and> float_le lo (Fin 180)))))"

text \<open>\<open>math.radians(x)\<close>: the product with the constant, rounded.\<close>

definition radians :: "float_ops \<Rightarrow> real \<Rightarrow> real" where
  "radians ops x = rnd ops (x * deg_to_rad ops)"

text \<open>The variable \<open>a\<close> of \<open>_haversine_meters\<close>, every operation rounded as the machine
  rounds it.\<close>

definition haversine_a :: "float_ops \<Rightarrow> real \<Rightarrow> real \<Rightarrow> real \<Rightarrow> real \<Rightarrow> real" where
  "haversine_a ops lat1 lon1 lat2 lon2 =
     (let phi1 = radians ops lat1;
          phi2 = radians ops lat2;
          dphi = radians ops (rnd ops (lat2 - lat1));
          dlambda = radians ops (rnd ops (lon2 - lon1))
      in rnd ops (fsquare ops (fsin ops (rnd ops (dphi / 2)))
                  + rnd ops (rnd ops (fcos ops phi1 * fcos ops phi2)
                             * fsquare ops (fsin ops (rnd ops (dlambda / 2))))))"

text \<open>\<open>_haversine_meters\<close>. \<open>math.sqrt\<close> raises \<open>ValueError\<close> on a negative argument, so the
  function raises when \<open>a\<close> or \<open>1 - a\<close> comes out negative; the source has no guard
  against either.\<close>

definition haversine_meters :: "float_ops \<Rightarrow> real \<Rightarrow> real \<Rightarrow> real \<Rightarrow> real \<Rightarrow> py_exn + real" where
  "haversine_meters ops lat1 lon1 lat2 lon2 =
     (let r = 6371000;
          a = haversine_a ops lat1 lon1 lat2 lon2
      in if a < 0 then Inl ValueError
         else if rnd ops (1 - a) < 0 then Inl ValueError
         else (let c = rnd ops (2 * fatan2 ops (fsqrt ops a) (fsqrt ops (rnd ops (1 - a))))
               in Inr (rnd ops (r * c))))"

section \<open>The provider client\<close>

text \<open>\<open>GeocodeResult\<close>. \<open>status\<close>, \<open>result_count\<close> and \<open>partial_match\<close> always go through
  \<open>str\<close>, \<open>int\<close> and \<open>bool\<close>; the other fields hold whatever the payload or the cache entry
  held.\<close>

record geocode_result =
  status :: string
  formatted_address :: json
  latitude :: json
  longitude :: json
  result_count :: int
  partial_match :: bool
  location_type :: json
  error_message :: json
  raw :: json

text \<open>\<open>geocode_address\<close>. The request itself (\<open>urlopen\<close>, \<open>read\<close>, \<open>decode\<close>, \<open>json.loads\<close>)
  is the parameter \<open>fetch\<close>: for an address it raises or yields the parsed payload \<open>raw\<close>.
  \<open>raw.get\<close> on a payload that is no dict is an \<open>AttributeError\<close>.\<close>

definition geocode_address ::
  "float_ops \<Rightarrow> (json \<Rightarrow> string) \<Rightarrow> (string \<Rightarrow> py_exn + json) \<Rightarrow> string
     \<Rightarrow> py_exn + geocode_result" where
  "geocode_address ops repr fetch address =
     (case fetch address of
        Inl e \<Rightarrow> Inl e
      | Inr rawv \<Rightarrow>
          (case rawv of
             JDict d \<Rightarrow>
               (let st = py_str repr (dict_get d ''status'' (JStr ''''));
                    em = (case dict_get d ''error_message'' JNull of JStr m \<Rightarrow> JStr m | _ \<Rightarrow> JNull);
                    results = (case dict_get d ''results'' JNull of JList rs \<Rightarrow> rs | _ \<Rightarrow> []);
                    count = int (length results)
                in if st \<noteq> ''OK'' then
                     Inr \<lparr>status = st, formatted_address = JNull, latitude = JNull,
                          longitude = JNull, result_count = count, partial_match = False,
                          location_type = JNull, error_message = em, raw = rawv\<rparr>
                   else
                     (case results of
                        [] \<Rightarrow>
                          Inr \<lparr>status = ''NO_RESULTS'', formatted_address = JNull,
                               latitude = JNull, longitude = JNull, result_count = 0,
                               partial_match = False, location_type = JNull,
                               error_message = em, raw = rawv\<rparr>
                      | r0 # _ \<Rightarrow>
                          (let first = (case r0 of JDict f \<Rightarrow> f | _ \<Rightarrow> []);
                               geometry = dict_get first ''geometry'' JNull;
                               lt = (case geometry of
                                       JDict g \<Rightarrow>
                                         (case dict_get g ''location_type'' JNull of
                                            JNull \<Rightarrow> JNull
                                          | v \<Rightarrow> JStr (py_str repr v))
                                     | _ \<Rightarrow> JNull);
                               location = (case geometry of
                                             JDict g \<Rightarrow> dict_get g ''location'' JNull
                                           | _ \<Rightarrow> JNull);
                               coords = (case location of
                                           JDict l \<Rightarrow>
                                             (case parse_float ops (dict_get l ''lat'' JNull) of
                                                Inl e \<Rightarrow> Inl e
                                              | Inr la \<Rightarrow>
                                                  (case parse_float ops (dict_get l ''lng'' JNull) of
                                                     Inl e \<Rightarrow> Inl e
                                                   | Inr lo \<Rightarrow> Inr (of_opt la, of_opt lo)))
                                         | _ \<Rightarrow> Inr (JNull, JNull))
                           in (case coords of
                                 Inl e \<Rightarrow> Inl e
                               | Inr (la, lo) \<Rightarrow>
                                   Inr \<lparr>status = st,
                                        formatted_address = dict_get first ''formatted_address'' JNull,
                                        latitude = la, longitude = lo, result_count = count,
                                        partial_match = py_bool (dict_get first ''partial_match'' JNull),
                                        location_type = lt, error_message = em, raw = rawv\<rparr>))))
           | _ \<Rightarrow> Inl AttributeError))"

section \<open>The ambiguity classifier\<close>

text \<open>\<open>x or d\<close>, and \<open>x.upper()\<close>, which only a string has.\<close>

definition py_or :: "json \<Rightarrow> json \<Rightarrow> json" where
  "py_or x d = (if py_bool x then x else d)"

definition py_upper :: "json \<Rightarrow> py_exn + string" where
  "py_upper x = (case x of JStr s \<Rightarrow> Inr (upper s) | _ \<Rightarrow> Inl AttributeError)"

text \<open>\<open>_ambiguous_reason\<close>.\<close>

definition ambiguous_reason :: "(json \<Rightarrow> string) \<Rightarrow> geocode_result \<Rightarrow> py_exn + string option" where
  "ambiguous_reason repr result =
     (if status result \<noteq> ''OK'' then Inr None
      else if result_count result \<noteq> 1 then
        Inr (Some (''ambiguous: result_count='' @ str_int (result_count result)))
      else if partial_match result then Inr (Some ''ambiguous: partial_match=true'')
      else (case py_upper (py_or (location_type result) (JStr '''')) of
              Inl e \<Rightarrow> Inl e
            | Inr u \<Rightarrow>
                if u \<noteq> ''ROOFTOP'' then
                  Inr (Some (''ambiguous: location_type=''
                             @ py_str repr (py_or (location_type result) (JStr ''UNKNOWN''))))
                else Inr None))"

section \<open>The result cache\<close>

definition CACHE_VERSION :: int where
  "CACHE_VERSION = 1"

text \<open>The dict \<open>{"version": CACHE_VERSION, "entries": {}}\<close>.\<close>

definition empty_cache :: json where
  "empty_cache = JDict [(''version'', JInt CACHE_VERSION), (''entries'', JDict [])]"

text \<open>What the loader finds at a path: no file (\<open>os.path.exists\<close> is false), a file
  that \<open>open\<close> or \<open>json.load\<close> raises on, or the value \<open>json.load\<close> returns.\<close>

datatype file_read = Absent | Unreadable py_exn | Parsed json

text \<open>\<open>v != n\<close> for an \<open>int\<close> \<open>n\<close>: Python compares numbers by value, so \<open>1.0\<close> and
  \<open>True\<close> equal \<open>1\<close>; a value that is no number differs from every \<open>int\<close>.\<close>

definition py_ne_int :: "json \<Rightarrow> int \<Rightarrow> bool" where
  "py_ne_int v n = (case num_of v of None \<Rightarrow> True | Some f \<Rightarrow> f \<noteq> Fin (real_of_int n))"

text \<open>The \<open>try\<close> block of \<open>_load_cache\<close>.\<close>

definition load_cache_try :: "file_read \<Rightarrow> py_exn + json" where
  "load_cache_try f =
     (case f of
        Absent \<Rightarrow> Inl TransportError
      | Unreadable e \<Rightarrow> Inl e
      | Parsed data \<Rightarrow>
          (case data of
             JDict d \<Rightarrow>
               if py_ne_int (dict_get d ''version'' JNull) CACHE_VERSION then Inr empty_cache
               else (case dict_get d ''entries'' JNull of
                       JDict _ \<Rightarrow> Inr data
                     | _ \<Rightarrow> Inr empty_cache)
           | _ \<Rightarrow> Inr empty_cache))"

text \<open>\<open>_load_cache\<close>: the two early returns, then the \<open>try\<close> block under
  \<open>except Exception\<close>.\<close>

definition load_cache :: "(string \<Rightarrow> file_read) \<Rightarrow> string \<Rightarrow> py_exn + json" where
  "load_cache files cache_file =
     (if cache_file = [] then Inr empty_cache
      else if files cache_file = Absent then Inr empty_cache
      else (case load_cache_try (files cache_file) of
              Inl e \<Rightarrow> Inr empty_cache
            | Inr c \<Rightarrow> Inr c))"

text \<open>\<open>_geocode_result_to_cache_entry\<close>.\<close>

definition geocode_result_to_cache_entry :: "geocode_result \<Rightarrow> json" where
  "geocode_result_to_cache_entry result =
     JDict [(''status'', JStr (status result)),
            (''formatted_address'', formatted_address result),
            (''latitude'', latitude result),
            (''longitude'', longitude result),
            (''result_count'', JInt (result_count result)),
            (''partial_match'', JBool (partial_match result)),
            (''location_type'', location_type result),
            (''error_message'', error_message result)]"

text \<open>\<open>_cache_entry_to_geocode_result\<close>: \<open>None\<close> for an entry that is no dict or whose
  \<open>result_count\<close> \<open>int\<close> rejects (\<open>str\<close> and \<open>bool\<close> accept every value).\<close>

definition cache_entry_to_geocode_result :: "(json \<Rightarrow> string) \<Rightarrow> json \<Rightarrow> geocode_result option" where
  "cache_entry_to_geocode_result repr entry =
     (case entry of
        JDict e \<Rightarrow>
          (case py_int (dict_get e ''result_count'' (JInt 0)) of
             Inl _ \<Rightarrow> None
           | Inr n \<Rightarrow>
               Some \<lparr>status = py_str repr (dict_get e ''status'' (JStr '''')),
                     formatted_address = dict_get e ''formatted_address'' JNull,
                     latitude = dict_get e ''latitude'' JNull,
                     longitude = dict_get e ''longitude'' JNull,
                     result_count = n,
                     partial_match = py_bool (dict_get e ''partial_match'' (JBool False)),
                     location_type = dict_get e ''location_type'' JNull,
                     error_message = dict_get e ''error_message'' JNull,
                     raw = JDict []\<rparr>)
      | _ \<Rightarrow> None)"

section \<open>Column resolution\<close>

text \<open>\<open>_required_column\<close>: the resolved name, or the message of the \<open>SystemExit\<close> it
  raises. In the dict of lower-cased names a later column replaces an earlier one.\<close>

definition required_column :: "string list \<Rightarrow> string \<Rightarrow> string \<Rightarrow> string + string" where
  "required_column fieldnames requested label =
     (if requested \<in> set fieldnames then Inr requested
      else (case map_of (rev (map (\<lambda>name. (lower name, name)) fieldnames)) (lower requested) of
              Some name \<Rightarrow> Inr name
            | None \<Rightarrow>
                Inl (''Missing required column for '' @ label @ '': '' @ [CHR 0x27] @ requested
                     @ [CHR 0x27] @ ''. Available columns: '' @ join '', '' fieldnames)))"

section \<open>The run\<close>

text \<open>The command line (\<open>parse_args\<close> fills it in; \<open>tolerance_meters\<close> is whatever
  \<open>float\<close> read, \<open>cache_file\<close>, \<open>summary_output\<close> and \<open>max_rows\<close> default to \<open>None\<close>).\<close>

record args =
  input :: string
  mismatches_output :: string
  summary_output :: "string option"
  id_column :: string
  address_column :: string
  lat_column :: string
  lng_column :: string
  tolerance_meters :: pyfloat
  env_file :: string
  cache_file :: "string option"
  sleep_ms :: int
  max_rows :: "int option"
  dry_run :: bool

text \<open>A row of \<open>csv.DictReader\<close>: the cell under each column name, \<open>None\<close> where the line
  was short.\<close>

type_synonym row = "string \<Rightarrow> string option"

text \<open>What \<open>main\<close> reads from outside:
  \<^item> \<open>fp\<close>, the floating-point arithmetic;
  \<^item> \<open>repr\<close>, Python's \<open>str\<close> on values that are no strings;
  \<^item> \<open>api_key\<close>, what \<open>os.environ.get("GOOGLE_MAPS_API_KEY")\<close> returns once the env
    file has been looked at;
  \<^item> \<open>files\<close>, the state of the cache file;
  \<^item> \<open>input_csv\<close>: opening the input raises, or \<open>DictReader\<close> yields
    \<open>fieldnames\<close> (\<open>None\<close> when there is no header row) and the rows;
  \<^item> \<open>fetch\<close>, the provider's reply to a request for an address, or the exception the
    request raises;
  \<^item> \<open>write_error\<close>, the exception that opening a path for writing raises, if any.\<close>

record world =
  fp :: float_ops
  repr :: "json \<Rightarrow> string"
  api_key :: "string option"
  files :: "string \<Rightarrow> file_read"
  input_csv :: "py_exn + (string list option \<times> row list)"
  fetch :: "string \<Rightarrow> py_exn + json"
  write_error :: "string \<Rightarrow> py_exn option"

text \<open>A row of the mismatch output before it is written: the input row and the values of
  the three added columns. \<open>JNull\<close> and \<open>None\<close> are written as the empty string, a number
  as its \<open>str\<close>, the distance with three decimals.\<close>

record mismatch =
  source_row :: row
  google_latitude :: json
  google_longitude :: json
  distance_meters :: "real option"

text \<open>What the run does outside the process, in order: requests to the provider and
  calls of \<open>time.sleep\<close> (with the milliseconds asked for).\<close>

datatype event = NetworkCall string | Sleep int

text \<open>The local variables of \<open>main\<close> that the loop changes.\<close>

record run_state =
  total_rows :: int
  checked_rows :: int
  matched :: int
  mismatched :: int
  invalid_coord_mismatches :: int
  skipped_missing_address :: int
  skipped_ambiguous :: int
  skipped_geocode_failure :: int
  cache_entries :: "(string \<times> json) list"
  cache_hits :: int
  cache_misses :: int
  mismatches :: "mismatch list"
  events :: "event list"

text \<open>A path given as an optional string is used when it is neither \<open>None\<close> nor empty.\<close>

definition truthy :: "string option \<Rightarrow> bool" where
  "truthy p = (case p of None \<Rightarrow> False | Some t \<Rightarrow> t \<noteq> [])"

text \<open>\<open>geocode_with_cache\<close>, the closure of \<open>main\<close>: the result or the exception of the
  lookup, and the state after it. The miss is counted before the request is made.\<close>

definition geocode_with_cache ::
  "args \<Rightarrow> world \<Rightarrow> string \<Rightarrow> run_state \<Rightarrow> (py_exn + geocode_result) \<times> run_state" where
  "geocode_with_cache a w address s =
     (let key = normalize_address address;
          cached = (if truthy (cache_file a)
                    then (case map_of (cache_entries s) key of
                            None \<Rightarrow> None
                          | Some entry \<Rightarrow> cache_entry_to_geocode_result (repr w) entry)
                    else None)
      in (case cached of
            Some r \<Rightarrow> (Inr r, s\<lparr>cache_hits := cache_hits s + 1\<rparr>)
          | None \<Rightarrow>
              (let s1 = s\<lparr>cache_misses := cache_misses s + 1,
                           events := events s @ [NetworkCall address]\<rparr>
               in (case geocode_address (fp w) (repr w) (fetch w) address of
                     Inl e \<Rightarrow> (Inl e, s1)
                   | Inr r \<Rightarrow>
                       (Inr r,
                        if truthy (cache_file a)
                        then s1\<lparr>cache_entries :=
                                  AList.update key (geocode_result_to_cache_entry r)
                                    (cache_entries s1)\<rparr>
                        else s1)))))"

text \<open>The \<open>try\<close> block of the invalid-coordinates branch, after the lookup: the provider
  coordinates to record, both \<open>None\<close> when anything in the block raised.\<close>

definition enrichment :: "(json \<Rightarrow> string) \<Rightarrow> py_exn + geocode_result \<Rightarrow> json \<times> json" where
  "enrichment rp res =
     (case res of
        Inl e \<Rightarrow> (JNull, JNull)
      | Inr r \<Rightarrow>
          if status r = ''OK'' then
            (case is_valid_lat_lng (latitude r) (longitude r) of
               Inl e \<Rightarrow> (JNull, JNull)
             | Inr False \<Rightarrow> (JNull, JNull)
             | Inr True \<Rightarrow>
                 (case ambiguous_reason rp r of
                    Inl e \<Rightarrow> (JNull, JNull)
                  | Inr None \<Rightarrow> (latitude r, longitude r)
                  | Inr (Some reason) \<Rightarrow> (JNull, JNull)))
          else (JNull, JNull))"

text \<open>The rest of the loop body once the stored coordinates are valid and the lookup has
  returned \<open>res\<close>. The two checks and the distance computation are outside any \<open>try\<close>: an
  exception there ends the run. The last case is never reached, both pairs having passed
  the range check.\<close>

definition compare_row ::
  "args \<Rightarrow> world \<Rightarrow> row \<Rightarrow> pyfloat option \<Rightarrow> pyfloat option \<Rightarrow> geocode_result \<Rightarrow> run_state
     \<Rightarrow> py_exn + run_state" where
  "compare_row a w r lat lng res s =
     (case (if status res \<noteq> ''OK'' then Inr True
            else (case is_valid_lat_lng (latitude res) (longitude res) of
                    Inl e \<Rightarrow> Inl e
                  | Inr v \<Rightarrow> Inr (\<not> v))) of
        Inl e \<Rightarrow> Inl e
      | Inr True \<Rightarrow> Inr (s\<lparr>skipped_geocode_failure := skipped_geocode_failure s + 1\<rparr>)
      | Inr False \<Rightarrow>
          (case ambiguous_reason (repr w) res of
             Inl e \<Rightarrow> Inl e
           | Inr reason \<Rightarrow>
               if (case reason of None \<Rightarrow> False | Some t \<Rightarrow> t \<noteq> []) then
                 Inr (s\<lparr>skipped_ambiguous := skipped_ambiguous s + 1\<rparr>)
               else
                 (case (lat, lng, num_of (latitude res), num_of (longitude res)) of
                    (Some (Fin la), Some (Fin lo), Some (Fin gla), Some (Fin glo)) \<Rightarrow>
                      (case haversine_meters (fp w) la lo gla glo of
                         Inl e \<Rightarrow> Inl e
                       | Inr distance_m \<Rightarrow>
                      (let s1 = s\<lparr>checked_rows := checked_rows s + 1\<rparr>;
                           s2 = (if float_le (Fin distance_m) (tolerance_meters a)
                                 then s1\<lparr>matched := matched s1 + 1\<rparr>
                                 else s1\<lparr>mismatched := mismatched s1 + 1,
                                         mismatches := mismatches s1 @
                                           [\<lparr>source_row = r,
                                             google_latitude = latitude res,
                                             google_longitude = longitude res,
                                             distance_meters = Some distance_m\<rparr>]\<rparr>)
                       in Inr (if 0 < sleep_ms a
                               then s2\<lparr>events := events s2 @ [Sleep (sleep_ms a)]\<rparr>
                               else s2)))
                  | _ \<Rightarrow> Inl TypeError)))"

text \<open>\<open>row.get(col)\<close>, and \<open>(row.get(col) or "").strip()\<close>.\<close>

definition row_get :: "row \<Rightarrow> string \<Rightarrow> json" where
  "row_get r col = (case r col of None \<Rightarrow> JNull | Some t \<Rightarrow> JStr t)"

definition stripped_cell :: "row \<Rightarrow> string \<Rightarrow> string" where
  "stripped_cell r col = strip (case r col of None \<Rightarrow> [] | Some t \<Rightarrow> t)"

text \<open>The body of \<open>for row in reader\<close> after \<open>total_rows += 1\<close>. The id column only
  feeds the diagnostic lines on stderr, which are not modelled.\<close>

definition process_row ::
  "args \<Rightarrow> world \<Rightarrow> string \<Rightarrow> string \<Rightarrow> string \<Rightarrow> row \<Rightarrow> run_state \<Rightarrow> py_exn + run_state" where
  "process_row a w address_col lat_col lng_col r s =
     (let address = stripped_cell r address_col
      in (case parse_float (fp w) (row_get r lat_col) of
            Inl e \<Rightarrow> Inl e
          | Inr lat \<Rightarrow>
         (case parse_float (fp w) (row_get r lng_col) of
            Inl e \<Rightarrow> Inl e
          | Inr lng \<Rightarrow>
              if address = [] then
                Inr (s\<lparr>skipped_missing_address := skipped_missing_address s + 1\<rparr>)
              else
                (case is_valid_lat_lng (of_opt lat) (of_opt lng) of
                   Inl e \<Rightarrow> Inl e
                 | Inr False \<Rightarrow>
                     (let s1 = s\<lparr>invalid_coord_mismatches := invalid_coord_mismatches s + 1,
                                  mismatched := mismatched s + 1\<rparr>;
                          (res, s2) = geocode_with_cache a w address s1;
                          (google_lat, google_lng) = enrichment (repr w) res
                      in Inr (s2\<lparr>mismatches := mismatches s2 @
                                  [\<lparr>source_row = r, google_latitude = google_lat,
                                    google_longitude = google_lng,
                                    distance_meters = None\<rparr>]\<rparr>))
                 | Inr True \<Rightarrow>
                     (case geocode_with_cache a w address s of
                        (Inl e, s1) \<Rightarrow>
                          Inr (s1\<lparr>skipped_geocode_failure := skipped_geocode_failure s1 + 1\<rparr>)
                      | (Inr res, s1) \<Rightarrow> compare_row a w r lat lng res s1)))))"

text \<open>The loop over the rows \<open>DictReader\<close> yields (reading them is taken not to raise):
  it stops at \<open>max_rows\<close> rows, and at the first exception a row lets through.\<close>

fun process_rows ::
  "args \<Rightarrow> world \<Rightarrow> string \<Rightarrow> string \<Rightarrow> string \<Rightarrow> row list \<Rightarrow> run_state \<Rightarrow> py_exn + run_state" where
  "process_rows a w address_col lat_col lng_col [] s = Inr s"
| "process_rows a w address_col lat_col lng_col (r # rs) s =
     (if (case max_rows a of None \<Rightarrow> False | Some m \<Rightarrow> m \<le> total_rows s) then Inr s
      else (case process_row a w address_col lat_col lng_col r
                   (s\<lparr>total_rows := total_rows s + 1\<rparr>) of
              Inl e \<Rightarrow> Inl e
            | Inr s' \<Rightarrow> process_rows a w address_col lat_col lng_col rs s'))"

text \<open>The summary dict, its keys prefixed with \<open>summary_\<close>.\<close>

record summary =
  summary_input :: string
  summary_mismatches_output :: string
  summary_tolerance_meters :: pyfloat
  summary_total_rows :: int
  summary_checked_rows :: int
  summary_matched :: int
  summary_mismatched :: int
  summary_invalid_coord_mismatches :: int
  summary_distance_mismatches :: int
  summary_skipped_missing_address :: int
  summary_skipped_ambiguous :: int
  summary_skipped_geocode_failure :: int
  summary_cache_file :: "string option"
  summary_cache_hits :: int
  summary_cache_misses :: int
  summary_accounted_rows :: int

definition summarize :: "args \<Rightarrow> run_state \<Rightarrow> summary" where
  "summarize a s =
     (let d = mismatched s - invalid_coord_mismatches s;
          distance_mismatches = (if d < 0 then 0 else d);
          accounted_rows = checked_rows s + invalid_coord_mismatches s
            + skipped_missing_address s + skipped_ambiguous s + skipped_geocode_failure s
      in \<lparr>summary_input = input a,
          summary_mismatches_output = mismatches_output a,
          summary_tolerance_meters = tolerance_meters a,
          summary_total_rows = total_rows s,
          summary_checked_rows = checked_rows s,
          summary_matched = matched s,
          summary_mismatched = mismatched s,
          summary_invalid_coord_mismatches = invalid_coord_mismatches s,
          summary_distance_mismatches = distance_mismatches,
          summary_skipped_missing_address = skipped_missing_address s,
          summary_skipped_ambiguous = skipped_ambiguous s,
          summary_skipped_geocode_failure = skipped_geocode_failure s,
          summary_cache_file = cache_file a,
          summary_cache_hits = cache_hits s,
          summary_cache_misses = cache_misses s,
          summary_accounted_rows = accounted_rows\<rparr>)"

text \<open>How \<open>main\<close> ends: a \<open>return\<close> before the loop (\<open>return 2\<close>, or the dry run's
  \<open>return 0\<close>), the \<open>return 0\<close> after the summary is printed, the \<open>SystemExit\<close> of
  \<open>_required_column\<close> with its message, or an exception nothing catches.\<close>

datatype run_end =
    Returned int
  | Finished summary run_state
  | SystemExit_raised string
  | Uncaught py_exn

definition initial_state :: "(string \<times> json) list \<Rightarrow> run_state" where
  "initial_state entries =
     \<lparr>total_rows = 0, checked_rows = 0, matched = 0, mismatched = 0,
      invalid_coord_mismatches = 0, skipped_missing_address = 0, skipped_ambiguous = 0,
      skipped_geocode_failure = 0, cache_entries = entries, cache_hits = 0,
      cache_misses = 0, mismatches = [], events = []\<rparr>"

text \<open>\<open>main\<close>. Saving the cache cannot fail (\<open>_save_cache\<close> swallows every exception) and
  is left out.\<close>

definition main :: "args \<Rightarrow> world \<Rightarrow> run_end" where
  "main a w =
     (if float_lt (tolerance_meters a) (Fin 0) then Returned 2
      else if \<not> dry_run a \<and> \<not> truthy (api_key w) then Returned 2
      else
        (case (if \<not> dry_run a \<and> truthy (cache_file a)
               then load_cache (files w) (case cache_file a of None \<Rightarrow> [] | Some p \<Rightarrow> p)
               else Inr empty_cache) of
           Inl e \<Rightarrow> Uncaught e
         | Inr cache \<Rightarrow>
        (let entries = (case cache of
                          JDict d \<Rightarrow> (case dict_get d ''entries'' JNull of
                                        JDict es \<Rightarrow> es
                                      | _ \<Rightarrow> [])
                        | _ \<Rightarrow> [])
         in (case input_csv w of
               Inl e \<Rightarrow> Uncaught e
             | Inr (None, rows) \<Rightarrow> Returned 2
             | Inr (Some fieldnames, rows) \<Rightarrow>
            (case required_column fieldnames (id_column a) ''id'' of
               Inl msg \<Rightarrow> SystemExit_raised msg
             | Inr id_col \<Rightarrow>
            (case required_column fieldnames (address_column a) ''address'' of
               Inl msg \<Rightarrow> SystemExit_raised msg
             | Inr address_col \<Rightarrow>
            (case required_column fieldnames (lat_column a) ''latitude'' of
               Inl msg \<Rightarrow> SystemExit_raised msg
             | Inr lat_col \<Rightarrow>
            (case required_column fieldnames (lng_column a) ''longitude'' of
               Inl msg \<Rightarrow> SystemExit_raised msg
             | Inr lng_col \<Rightarrow>
                 if dry_run a then Returned 0
                 else
                   (case process_rows a w address_col lat_col lng_col rows
                           (initial_state entries) of
                      Inl e \<Rightarrow> Uncaught e
                    | Inr s \<Rightarrow>
                        (case write_error w (mismatches_output a) of
                           Some e \<Rightarrow> Uncaught e
                         | None \<Rightarrow>
                             (case (if truthy (summary_output a)
                                    then write_error w (case summary_output a of
                                                          None \<Rightarrow> []
                                                        | Some p \<Rightarrow> p)
                                    else None) of
                                Some e \<Rightarrow> Uncaught e
                              | None \<Rightarrow> Finished (summarize a s) s)))))))))))"

text \<open>The exit status of the process, \<open>raise SystemExit(main())\<close>: the integer \<open>main\<close>
  returns; 1 when a \<open>SystemExit\<close> carries a message (Python prints it) and when an
  exception reaches the top.\<close>

definition exit_code :: "run_end \<Rightarrow> int" where
  "exit_code e =
     (case e of
        Returned n \<Rightarrow> n
      | Finished sm s \<Rightarrow> 0
      | SystemExit_raised msg \<Rightarrow> 1
      | Uncaught x \<Rightarrow> 1)"

section \<open>What the claims speak of\<close>

text \<open>\<open>isinstance(v, dict)\<close>.\<close>

definition is_dict :: "json \<Rightarrow> bool" where
  "is_dict v = (case v of JDict d \<Rightarrow> True | _ \<Rightarrow> False)"

text \<open>The structural problems of a cache file: it is absent, it cannot be read or parsed,
  its top level is no dict, its \<open>version\<close> is not the current one, or its \<open>entries\<close> member
  is no dict.\<close>

definition structural_problem :: "file_read \<Rightarrow> bool" where
  "structural_problem f =
     (case f of
        Absent \<Rightarrow> True
      | Unreadable e \<Rightarrow> True
      | Parsed data \<Rightarrow>
          (case data of
             JDict d \<Rightarrow>
               py_ne_int (dict_get d ''version'' JNull) CACHE_VERSION
               \<or> \<not> is_dict (dict_get d ''entries'' JNull)
           | _ \<Rightarrow> True))"

text \<open>A requested column is absent from the header when no column has that name, in any
  case.\<close>

definition column_absent :: "string list \<Rightarrow> string \<Rightarrow> bool" where
  "column_absent fieldnames requested \<longleftrightarrow>
     requested \<notin> set fieldnames \<and> lower requested \<notin> set (map lower fieldnames)"

text \<open>Stored coordinates are invalid when one of them is missing or is no number in its
  range: latitude from -90 to 90, longitude from -180 to 180. An infinity and a NaN are in
  no range.\<close>

definition outside :: "real \<Rightarrow> real \<Rightarrow> pyfloat \<Rightarrow> bool" where
  "outside lo hi f = (case f of Fin x \<Rightarrow> x < lo \<or> hi < x | _ \<Rightarrow> True)"

definition stored_coordinates_invalid :: "pyfloat option \<Rightarrow> pyfloat option \<Rightarrow> bool" where
  "stored_coordinates_invalid lat lng =
     (case (lat, lng) of
        (Some la, Some lo) \<Rightarrow> outside (- 90) 90 la \<or> outside (- 180) 180 lo
      | _ \<Rightarrow> True)"

text \<open>The row \<open>r\<close> is classified Mismatched(InvalidCoordinates) between the states \<open>s\<close> and
  \<open>s'\<close>: both mismatch counters go up by one, no other outcome is counted, and one row is
  added to the mismatch output, with an empty distance.\<close>

definition invalid_coordinates_mismatch :: "row \<Rightarrow> run_state \<Rightarrow> run_state \<Rightarrow> bool" where
  "invalid_coordinates_mismatch r s s' \<longleftrightarrow>
     invalid_coord_mismatches s' = invalid_coord_mismatches s + 1
     \<and> mismatched s' = mismatched s + 1
     \<and> checked_rows s' = checked_rows s
     \<and> matched s' = matched s
     \<and> skipped_missing_address s' = skipped_missing_address s
     \<and> skipped_ambiguous s' = skipped_ambiguous s
     \<and> skipped_geocode_failure s' = skipped_geocode_failure s
     \<and> (\<exists>glat glng.
           mismatches s' = mismatches s @
             [\<lparr>source_row = r, google_latitude = glat, google_longitude = glng,
               distance_meters = None\<rparr>])"

text \<open>The row is classified Skipped(GeocodeFailure): that counter goes up by one, no other
  outcome is counted and nothing is added to the mismatch output.\<close>

definition skipped_as_geocode_failure :: "run_state \<Rightarrow> run_state \<Rightarrow> bool" where
  "skipped_as_geocode_failure s s' \<longleftrightarrow>
     skipped_geocode_failure s' = skipped_geocode_failure s + 1
     \<and> checked_rows s' = checked_rows s
     \<and> matched s' = matched s
     \<and> mismatched s' = mismatched s
     \<and> invalid_coord_mismatches s' = invalid_coord_mismatches s
     \<and> skipped_missing_address s' = skipped_missing_address s
     \<and> skipped_ambiguous s' = skipped_ambiguous s
     \<and> mismatches s' = mismatches s"

text \<open>Text that \<open>float\<close> reads as a NaN or an infinity: \<open>nan\<close>, \<open>inf\<close> or \<open>infinity\<close> in
  any case, with an optional sign and surrounding whitespace.\<close>

definition non_finite_text :: "string \<Rightarrow> bool" where
  "non_finite_text t \<longleftrightarrow>
     lower (snd (take_sign (strip t))) \<in> {''nan'', ''inf'', ''infinity''}"

text \<open>A provider payload with the top-level status \<open>OK\<close> and an empty list of results.\<close>

definition ok_without_results :: "json \<Rightarrow> bool" where
  "ok_without_results payload =
     (case payload of
        JDict d \<Rightarrow> map_of d ''status'' = Some (JStr ''OK'') \<and> map_of d ''results'' = Some (JList [])
      | _ \<Rightarrow> False)"

text \<open>The normalisation in words: every run of whitespace is collapsed to a single space
  (the flag says that the previous character was whitespace), then the ends are
  trimmed.\<close>

fun collapse_ws :: "bool \<Rightarrow> string \<Rightarrow> string" where
  "collapse_ws prev [] = []"
| "collapse_ws prev (c # cs) =
     (if is_space c then (if prev then collapse_ws True cs else CHR '' '' # collapse_ws True cs)
      else c # collapse_ws False cs)"

definition collapse_and_trim :: "string \<Rightarrow> string" where
  "collapse_and_trim s = strip (collapse_ws False s)"

text \<open>Two addresses are whitespace variants of each other when one becomes the other by
  adding or removing whitespace at the ends and by replacing a run of whitespace inside
  by another run.\<close>

inductive ws_variant :: "string \<Rightarrow> string \<Rightarrow> bool" where
  same: "ws_variant a a"
| leading: "list_all is_space l \<Longrightarrow> ws_variant (l @ a) a"
| trailing: "list_all is_space t \<Longrightarrow> ws_variant (a @ t) a"
| run: "w1 \<noteq> [] \<Longrightarrow> w2 \<noteq> [] \<Longrightarrow> list_all is_space w1 \<Longrightarrow> list_all is_space w2 \<Longrightarrow>
        ws_variant (u @ w1 @ v) (u @ w2 @ v)"
| sym: "ws_variant a b \<Longrightarrow> ws_variant b a"
| trans: "ws_variant a b \<Longrightarrow> ws_variant b c \<Longrightarrow> ws_variant a c"

text \<open>The same normalisation in one pass, for the proofs: whitespace is skipped, and a
  space is put in front of a character when a word has been started (\<open>started\<close>) and
  whitespace was skipped since (\<open>pending\<close>).\<close>

fun squeeze :: "bool \<Rightarrow> bool \<Rightarrow> string \<Rightarrow> string" where
  "squeeze started pending [] = []"
| "squeeze started pending (c # cs) =
     (if is_space c then squeeze started started cs
      else (if pending then [CHR '' ''] else []) @ c # squeeze True False cs)"

section \<open>Example inputs\<close>

text \<open>The command line of the end-to-end scenarios: default column names, a tolerance of
  50 metres, no cache, no delay.\<close>

definition example_args :: args where
  "example_args =
     \<lparr>input = ''properties.csv'', mismatches_output = ''mismatches.csv'',
      summary_output = None, id_column = ''id'', address_column = ''address'',
      lat_column = ''latitude'', lng_column = ''longitude'', tolerance_meters = Fin 50,
      env_file = ''.env'', cache_file = None, sleep_ms = 0, max_rows = None,
      dry_run = False\<rparr>"

text \<open>Three input rows: one with coordinates, one with an empty latitude, one with an
  empty address.\<close>

definition example_row :: row where
  "example_row =
     [''id'' \<mapsto> ''1'', ''address'' \<mapsto> ''1 Main St'', ''latitude'' \<mapsto> ''40.0'',
      ''longitude'' \<mapsto> ''-74.0'']"

definition no_latitude_row :: row where
  "no_latitude_row = example_row(''id'' \<mapsto> ''2'', ''latitude'' \<mapsto> '''')"

definition no_address_row :: row where
  "no_address_row = example_row(''id'' \<mapsto> ''3'', ''address'' \<mapsto> ''  '')"

text \<open>A provider payload: status \<open>OK\<close> with the given results.\<close>

definition ok_payload :: "json list \<Rightarrow> json" where
  "ok_payload results = JDict [(''status'', JStr ''OK''), (''results'', JList results)]"

text \<open>One result of a payload, with its location type and whether it is a partial
  match, at latitude 40 and longitude -74.\<close>

definition result_at :: "string \<Rightarrow> bool \<Rightarrow> json" where
  "result_at lt partial =
     JDict [(''formatted_address'', JStr ''1 Main St, Springfield''),
            (''partial_match'', JBool partial),
            (''geometry'',
             JDict [(''location'', JDict [(''lat'', JFloat (Fin 40)), (''lng'', JFloat (Fin (- 74)))]),
                    (''location_type'', JStr lt)])]"

text \<open>An arithmetic for the examples: the exact one, in which nothing is rounded. The
  examples only parse short decimals and take the distance of a point to itself.\<close>

definition exact_atan2 :: "real \<Rightarrow> real \<Rightarrow> real" where
  "exact_atan2 y x =
     (if 0 < x then arctan (y / x)
      else if x < 0 then (if 0 \<le> y then arctan (y / x) + pi else arctan (y / x) - pi)
      else if 0 < y then pi / 2
      else if y < 0 then - (pi / 2)
      else 0)"

definition exact_ops :: float_ops where
  "exact_ops =
     \<lparr>rnd = (\<lambda>x. x), fsin = sin, fcos = cos, fsqrt = sqrt, fatan2 = exact_atan2,
      fsquare = (\<lambda>x. x ^ 2), deg_to_rad = pi / 180\<rparr>"

text \<open>An outside world with a credential, a header with the four columns and the three
  rows, and a provider that answers every address with one rooftop result.\<close>

definition example_world :: world where
  "example_world =
     \<lparr>fp = exact_ops,
      repr = (\<lambda>v. ''?''),
      api_key = Some ''key'',
      files = (\<lambda>p. Absent),
      input_csv = Inr (Some [''id'', ''address'', ''latitude'', ''longitude''],
                       [example_row, no_latitude_row, no_address_row]),
      fetch = (\<lambda>address. Inr (ok_payload [result_at ''ROOFTOP'' False])),
      write_error = (\<lambda>p. None)\<rparr>"

text \<open>A stand-in for Python's \<open>str\<close> on values that are no strings, for the examples.\<close>

definition example_repr :: "json \<Rightarrow> string" where
  "example_repr v = ''?''"

text \<open>A \<open>GeocodeResult\<close> with the four fields the classifier reads; no coordinates.\<close>

definition example_result :: "string \<Rightarrow> int \<Rightarrow> bool \<Rightarrow> json \<Rightarrow> geocode_result" where
  "example_result st n partial lt =
     \<lparr>status = st, formatted_address = JNull, latitude = JNull, longitude = JNull,
      result_count = n, partial_match = partial, location_type = lt,
      error_message = JNull, raw = JDict []\<rparr>"

text \<open>Cache files for the examples: one of another version, one whose \<open>entries\<close> is a
  list, one that is a list, and their paths.\<close>

definition example_files :: "string \<Rightarrow> file_read" where
  "example_files p =
     (if p = ''old.json'' then Parsed (JDict [(''version'', JInt 0), (''entries'', JDict [])])
      else if p = ''list.json'' then Parsed (JDict [(''version'', JInt 1), (''entries'', JList [])])
      else if p = ''top.json'' then Parsed (JList [])
      else if p = ''bad.json'' then Unreadable ValueError
      else Absent)"

text \<open>A dry run over a header that has no longitude column.\<close>

definition dry_run_args :: args where
  "dry_run_args = example_args\<lparr>dry_run := True\<rparr>"

definition no_longitude_world :: world where
  "no_longitude_world =
     example_world\<lparr>api_key := None,
                   input_csv := Inr (Some [''id'', ''address'', ''latitude''], [])\<rparr>"

text \<open>A negative tolerance, a world without a credential, and an input without a header
  row.\<close>

definition negative_tolerance_args :: args where
  "negative_tolerance_args = example_args\<lparr>tolerance_meters := Fin (- 1)\<rparr>"

definition no_key_world :: world where
  "no_key_world = example_world\<lparr>api_key := None\<rparr>"

definition no_header_world :: world where
  "no_header_world = example_world\<lparr>input_csv := Inr (None, [])\<rparr>"

text \<open>Worlds for the examples: the provider cannot be reached; it answers \<open>OK\<close> with no
  result; it answers \<open>OK\<close> with two results.\<close>

definition offline_world :: world where
  "offline_world = example_world\<lparr>fetch := (\<lambda>address. Inl TransportError)\<rparr>"

definition no_results_world :: world where
  "no_results_world = example_world\<lparr>fetch := (\<lambda>address. Inr (ok_payload []))\<rparr>"

definition two_results_world :: world where
  "two_results_world =
     example_world\<lparr>fetch := (\<lambda>address. Inr (ok_payload [result_at ''ROOFTOP'' False,
                                                             result_at ''ROOFTOP'' False])),
                   input_csv := Inr (Some [''id'', ''address'', ''latitude'', ''longitude''],
                                     [example_row])\<rparr>"

text \<open>A row whose latitude cell reads \<open>nan\<close>.\<close>

definition nan_latitude_row :: row where
  "nan_latitude_row = example_row(''id'' \<mapsto> ''4'', ''latitude'' \<mapsto> '' NaN '')"

text \<open>A run with a cache file and a delay of 100 ms between requests; the cache file
  already holds a rooftop result for the one input row, and the provider is not
  reachable.\<close>

definition cached_args :: args where
  "cached_args = example_args\<lparr>cache_file := Some ''cache.json'', sleep_ms := 100\<rparr>"

definition cached_entry :: json where
  "cached_entry =
     JDict [(''status'', JStr ''OK''), (''formatted_address'', JStr ''1 Main St, Springfield''),
            (''latitude'', JFloat (Fin 40)), (''longitude'', JFloat (Fin (- 74))),
            (''result_count'', JInt 1), (''partial_match'', JBool False),
            (''location_type'', JStr ''ROOFTOP''), (''error_message'', JNull)]"

definition cached_world :: world where
  "cached_world =
     example_world\<lparr>files := (\<lambda>p. Parsed (JDict [(''version'', JInt 1),
                                                 (''entries'', JDict [(''1 Main St'', cached_entry)])])),
                   input_csv := Inr (Some [''id'', ''address'', ''latitude'', ''longitude''],
                                     [example_row]),
                   fetch := (\<lambda>address. Inl TransportError)\<rparr>"

definition delayed_args :: args where
  "delayed_args = example_args\<lparr>sleep_ms := 100\<rparr>"

section \<open>Properties\<close>

lemma exact_ops_rnd: "rnd exact_ops x = x"
  by (simp add: exact_ops_def)

lemmas str_defs = strip_def is_space_def c_strip_def is_c_space_def split_ws_def
  normalize_address_def lower_def lower_char_def upper_def upper_char_def

lemmas float_defs = py_float_def take_sign_def decimal_of_def is_digit_def digits_value_def
  digit_val_def to_double_def exponent_of_def parse_float_def of_opt_def is_valid_lat_lng_def
  exact_ops_rnd

lemmas run_defs = main_def truthy_def load_cache_def empty_cache_def CACHE_VERSION_def
  dict_get_def required_column_def initial_state_def process_row_def row_get_def
  stripped_cell_def geocode_with_cache_def
  geocode_address_def py_str_def enrichment_def compare_row_def ambiguous_reason_def
  py_or_def py_upper_def geocode_result_to_cache_entry_def cache_entry_to_geocode_result_def

lemmas ex_defs = example_args_def example_world_def example_row_def no_latitude_row_def
  no_address_row_def ok_payload_def result_at_def

subsection \<open>Geodesy\<close>

lemma haversine_a_symmetric:
  assumes "\<And>x. rnd ops (- x) = - rnd ops x"
    and "\<And>x. fsin ops (- x) = - fsin ops x"
    and "\<And>x. fsquare ops (- x) = fsquare ops x"
  shows "haversine_a ops lat1 lon1 lat2 lon2 = haversine_a ops lat2 lon2 lat1 lon1"
proof -
  have half: "\<And>p q. fsquare ops (fsin ops (rnd ops (radians ops (rnd ops (p - q)) / 2)))
                = fsquare ops (fsin ops (rnd ops (radians ops (rnd ops (q - p)) / 2)))"
  proof -
    fix p q :: real
    have "rnd ops (p - q) = - rnd ops (q - p)"
      using assms(1) [of "q - p"] by simp
    then have "radians ops (rnd ops (p - q)) = - radians ops (rnd ops (q - p))"
      using assms(1) [of "rnd ops (q - p) * deg_to_rad ops"] by (simp add: radians_def)
    then have "rnd ops (radians ops (rnd ops (p - q)) / 2)
               = - rnd ops (radians ops (rnd ops (q - p)) / 2)"
      using assms(1) [of "radians ops (rnd ops (q - p)) / 2"] by simp
    then show "fsquare ops (fsin ops (rnd ops (radians ops (rnd ops (p - q)) / 2)))
                = fsquare ops (fsin ops (rnd ops (radians ops (rnd ops (q - p)) / 2)))"
      by (simp add: assms(2) assms(3))
  qed
  show ?thesis
    unfolding haversine_a_def Let_def
    by (simp only: half [of lat2 lat1] half [of lon2 lon1]
          mult.commute [of "fcos ops (radians ops lat1)" "fcos ops (radians ops lat2)"])
qed

text \<open>Whatever the arithmetic, as long as rounding, \<open>math.sin\<close> and the square respect the
  sign, \<open>_haversine_meters\<close> ends in the same way for a pair of points in either order: with
  the same distance or with the same exception.\<close>

lemma haversine_symmetric:
  assumes "\<And>x. rnd ops (- x) = - rnd ops x"
    and "\<And>x. fsin ops (- x) = - fsin ops x"
    and "\<And>x. fsquare ops (- x) = fsquare ops x"
  shows "haversine_meters ops lat1 lon1 lat2 lon2 = haversine_meters ops lat2 lon2 lat1 lon1"
  unfolding haversine_meters_def
  by (simp only: haversine_a_symmetric [OF assms, of lat1 lon1 lat2 lon2])

lemma haversine_zero:
  assumes "rnd ops 0 = 0" and "rnd ops 1 = 1" and "fsin ops 0 = 0" and "fsquare ops 0 = 0"
    and "fsqrt ops 0 = 0" and "fatan2 ops 0 (fsqrt ops 1) = 0"
  shows "haversine_meters ops lat lon lat lon = Inr 0"
proof -
  have "haversine_a ops lat lon lat lon = 0"
    using assms by (simp add: haversine_a_def radians_def Let_def)
  with assms show ?thesis
    by (simp add: haversine_meters_def Let_def)
qed

lemma haversine_same_point: "haversine_meters exact_ops lat lon lat lon = Inr 0"
  by (rule haversine_zero) (simp_all add: exact_ops_def exact_atan2_def)

lemma haversine_only_ValueError: "haversine_meters ops lat1 lon1 lat2 lon2 = Inl e \<Longrightarrow> e = ValueError"
  by (auto simp: haversine_meters_def Let_def split: if_splits)

text \<open>The exception: when the rounded \<open>a\<close> exceeds 1 by enough for \<open>1 - a\<close> to round below
  zero, \<open>math.sqrt(1 - a)\<close> raises. In doubles this happens at valid coordinates near
  antipodal points, such as (2.5, 0) and (-2.5, 180), where \<open>a\<close> is 1.0000000000000002.\<close>

lemma haversine_raises:
  "rnd ops (1 - haversine_a ops lat1 lon1 lat2 lon2) < 0 \<Longrightarrow>
     haversine_meters ops lat1 lon1 lat2 lon2 = Inl ValueError"
  by (simp add: haversine_meters_def Let_def)

subsection \<open>The summary\<close>

lemma main_Finished_summarize: "main a w = Finished sm s \<Longrightarrow> sm = summarize a s"
  by (auto simp: main_def Let_def split: if_splits sum.splits option.splits prod.splits)

lemma example_run:
  "\<exists>sm s. main example_args example_world = Finished sm s \<and> summary_total_rows sm = 3"
  by (simp add: ex_defs run_defs str_defs float_defs haversine_same_point summarize_def Let_def)

text \<open>C4. Whenever a run prints its summary, \<open>accounted_rows\<close> is the sum of the checked
  rows, the invalid-coordinate mismatches and the three kinds of skipped rows, and
  \<open>distance_mismatches\<close> is \<open>max(0, mismatched - invalid_coord_mismatches)\<close>.\<close>

theorem summary_reconciles:
  assumes "main a w = Finished sm s"
  shows "summary_accounted_rows sm =
           summary_checked_rows sm + summary_invalid_coord_mismatches sm
           + summary_skipped_missing_address sm + summary_skipped_ambiguous sm
           + summary_skipped_geocode_failure sm
         \<and> summary_distance_mismatches sm =
           max 0 (summary_mismatched sm - summary_invalid_coord_mismatches sm)"
proof -
  have "sm = summarize a s"
    using assms by (rule main_Finished_summarize)
  then show ?thesis
    by (simp add: summarize_def Let_def max_def)
qed

theorem summary_reconciles_witness:
  "\<exists>sm s. main example_args example_world = Finished sm s
     \<and> summary_total_rows sm = 3
     \<and> summary_accounted_rows sm =
           summary_checked_rows sm + summary_invalid_coord_mismatches sm
           + summary_skipped_missing_address sm + summary_skipped_ambiguous sm
           + summary_skipped_geocode_failure sm
     \<and> summary_distance_mismatches sm =
           max 0 (summary_mismatched sm - summary_invalid_coord_mismatches sm)"
proof -
  obtain sm s where run: "main example_args example_world = Finished sm s"
    and rows: "summary_total_rows sm = 3"
    using example_run by blast
  from summary_reconciles [OF run] run rows show ?thesis by blast
qed

subsection \<open>The ambiguity classifier\<close>

lemma py_upper_or_empty:
  "py_upper (py_or lt (JStr '''')) = Inr u \<longleftrightarrow>
     (\<exists>t. lt = JStr t \<and> u = upper t) \<or> (\<not> py_bool lt \<and> u = [])"
  by (cases lt) (auto simp: py_upper_def py_or_def upper_def)

text \<open>C2, counterexample. A result whose status is not \<open>OK\<close> gets \<open>None\<close> although none
  of the three conditions holds of it.\<close>

theorem ambiguous_reason_counterexample:
  "ambiguous_reason example_repr (example_result ''ZERO_RESULTS'' 0 True JNull) = Inr None
   \<and> status (example_result ''ZERO_RESULTS'' 0 True JNull) \<noteq> ''OK''
   \<and> result_count (example_result ''ZERO_RESULTS'' 0 True JNull) \<noteq> 1
   \<and> partial_match (example_result ''ZERO_RESULTS'' 0 True JNull)"
  by (simp add: ambiguous_reason_def example_result_def)

text \<open>C2, amended. A result whose status is not \<open>OK\<close> gets \<open>None\<close>. For a result with
  status \<open>OK\<close> the classifier names the first failing condition, in the order
  \<open>result_count\<close>, \<open>partial_match\<close>, \<open>location_type\<close> (a missing or empty location type is
  printed as \<open>UNKNOWN\<close>), and returns \<open>None\<close> when the count is 1, the match is not partial
  and the location type in upper case is \<open>ROOFTOP\<close>. Altogether \<open>None\<close> is returned exactly
  for a status other than \<open>OK\<close> and for a result that passes the three conditions.\<close>

theorem ambiguous_reason_cases:
  "(status r \<noteq> ''OK'' \<longrightarrow> ambiguous_reason rp r = Inr None)
   \<and> (status r = ''OK'' \<and> result_count r \<noteq> 1 \<longrightarrow>
        ambiguous_reason rp r
          = Inr (Some (''ambiguous: result_count='' @ str_int (result_count r))))
   \<and> (status r = ''OK'' \<and> result_count r = 1 \<and> partial_match r \<longrightarrow>
        ambiguous_reason rp r = Inr (Some ''ambiguous: partial_match=true''))
   \<and> (status r = ''OK'' \<and> result_count r = 1 \<and> \<not> partial_match r
        \<and> location_type r = JStr t \<and> upper t \<noteq> ''ROOFTOP'' \<longrightarrow>
        ambiguous_reason rp r
          = Inr (Some (''ambiguous: location_type='' @ (if t = [] then ''UNKNOWN'' else t))))
   \<and> (status r = ''OK'' \<and> result_count r = 1 \<and> \<not> partial_match r
        \<and> location_type r = JNull \<longrightarrow>
        ambiguous_reason rp r = Inr (Some ''ambiguous: location_type=UNKNOWN''))
   \<and> (status r = ''OK'' \<and> result_count r = 1 \<and> \<not> partial_match r
        \<and> location_type r = JStr t \<and> upper t = ''ROOFTOP'' \<longrightarrow>
        ambiguous_reason rp r = Inr None)
   \<and> (ambiguous_reason rp r = Inr None \<longleftrightarrow>
        status r \<noteq> ''OK''
        \<or> (result_count r = 1 \<and> \<not> partial_match r
            \<and> (\<exists>u. location_type r = JStr u \<and> upper u = ''ROOFTOP'')))"
proof -
  have not_ok: "status r \<noteq> ''OK'' \<longrightarrow> ambiguous_reason rp r = Inr None"
    by (simp add: ambiguous_reason_def)
  have count: "status r = ''OK'' \<and> result_count r \<noteq> 1 \<longrightarrow>
        ambiguous_reason rp r
          = Inr (Some (''ambiguous: result_count='' @ str_int (result_count r)))"
    by (simp add: ambiguous_reason_def)
  have partial: "status r = ''OK'' \<and> result_count r = 1 \<and> partial_match r \<longrightarrow>
        ambiguous_reason rp r = Inr (Some ''ambiguous: partial_match=true'')"
    by (simp add: ambiguous_reason_def)
  have other_type: "status r = ''OK'' \<and> result_count r = 1 \<and> \<not> partial_match r
        \<and> location_type r = JStr t \<and> upper t \<noteq> ''ROOFTOP'' \<longrightarrow>
        ambiguous_reason rp r
          = Inr (Some (''ambiguous: location_type='' @ (if t = [] then ''UNKNOWN'' else t)))"
    by (simp add: ambiguous_reason_def py_upper_def py_or_def py_str_def upper_def)
  have no_type: "status r = ''OK'' \<and> result_count r = 1 \<and> \<not> partial_match r
        \<and> location_type r = JNull \<longrightarrow>
        ambiguous_reason rp r = Inr (Some ''ambiguous: location_type=UNKNOWN'')"
    by (simp add: ambiguous_reason_def py_upper_def py_or_def py_str_def upper_def)
  have rooftop: "status r = ''OK'' \<and> result_count r = 1 \<and> \<not> partial_match r
        \<and> location_type r = JStr t \<and> upper t = ''ROOFTOP'' \<longrightarrow>
        ambiguous_reason rp r = Inr None"
    by (auto simp: ambiguous_reason_def py_upper_def py_or_def upper_def)
  have exactly: "ambiguous_reason rp r = Inr None \<longleftrightarrow>
        status r \<noteq> ''OK''
        \<or> (result_count r = 1 \<and> \<not> partial_match r
            \<and> (\<exists>u. location_type r = JStr u \<and> upper u = ''ROOFTOP''))"
  proof (cases "status r = ''OK'' \<and> result_count r = 1 \<and> \<not> partial_match r")
    case False
    then show ?thesis by (auto simp: ambiguous_reason_def)
  next
    case True
    show ?thesis
    proof (cases "py_upper (py_or (location_type r) (JStr ''''))")
      case (Inl e)
      then have "\<not> (\<exists>u. location_type r = JStr u)"
        by (auto simp: py_upper_def py_or_def split: if_splits)
      with True Inl show ?thesis by (simp add: ambiguous_reason_def)
    next
      case (Inr u)
      then have "(\<exists>t. location_type r = JStr t \<and> u = upper t)
                 \<or> (\<not> py_bool (location_type r) \<and> u = [])"
        by (simp add: py_upper_or_empty)
      with True Inr show ?thesis
        by (auto simp: ambiguous_reason_def upper_def)
    qed
  qed
  from not_ok count partial other_type no_type rooftop exactly show ?thesis by blast
qed

theorem ambiguous_reason_cases_witness:
  "ambiguous_reason example_repr (example_result ''REQUEST_DENIED'' 0 False JNull) = Inr None
   \<and> ambiguous_reason example_repr (example_result ''OK'' 2 False (JStr ''ROOFTOP''))
       = Inr (Some ''ambiguous: result_count=2'')
   \<and> ambiguous_reason example_repr (example_result ''OK'' 1 True (JStr ''ROOFTOP''))
       = Inr (Some ''ambiguous: partial_match=true'')
   \<and> ambiguous_reason example_repr (example_result ''OK'' 1 False (JStr ''RANGE_INTERPOLATED''))
       = Inr (Some ''ambiguous: location_type=RANGE_INTERPOLATED'')
   \<and> ambiguous_reason example_repr (example_result ''OK'' 1 False JNull)
       = Inr (Some ''ambiguous: location_type=UNKNOWN'')
   \<and> ambiguous_reason example_repr (example_result ''OK'' 1 False (JStr ''Rooftop'')) = Inr None"
  using
    ambiguous_reason_cases [of "example_result ''REQUEST_DENIED'' 0 False JNull" example_repr]
    ambiguous_reason_cases [of "example_result ''OK'' 2 False (JStr ''ROOFTOP'')" example_repr]
    ambiguous_reason_cases [of "example_result ''OK'' 1 True (JStr ''ROOFTOP'')" example_repr]
    ambiguous_reason_cases [of "example_result ''OK'' 1 False (JStr ''RANGE_INTERPOLATED'')"
      example_repr "''RANGE_INTERPOLATED''"]
    ambiguous_reason_cases [of "example_result ''OK'' 1 False JNull" example_repr]
    ambiguous_reason_cases [of "example_result ''OK'' 1 False (JStr ''Rooftop'')" example_repr
      "''Rooftop''"]
  by (simp add: example_result_def upper_def upper_char_def str_int_def str_nat.simps)

subsection \<open>Loading the cache\<close>

lemma load_cache_returns: "\<exists>c. load_cache fs p = Inr c"
  by (simp add: load_cache_def split: sum.splits)

text \<open>C8. \<open>_load_cache\<close> never raises, and whenever the cache file has a structural
  problem (it is absent, unreadable or unparsable, its top level is no dict, its version
  differs from \<open>CACHE_VERSION\<close>, or its \<open>entries\<close> member is no dict) the result is the
  empty cache of the current version.\<close>

theorem load_cache_structural_problem:
  "(\<exists>c. load_cache fs p = Inr c)
   \<and> (structural_problem (fs p) \<longrightarrow>
        load_cache fs p = Inr (JDict [(''version'', JInt CACHE_VERSION), (''entries'', JDict [])]))"
proof
  show "\<exists>c. load_cache fs p = Inr c"
    by (rule load_cache_returns)
  show "structural_problem (fs p) \<longrightarrow>
        load_cache fs p = Inr (JDict [(''version'', JInt CACHE_VERSION), (''entries'', JDict [])])"
  proof
    assume bad: "structural_problem (fs p)"
    show "load_cache fs p = Inr (JDict [(''version'', JInt CACHE_VERSION), (''entries'', JDict [])])"
    proof (cases "fs p")
      case Absent
      then show ?thesis by (simp add: load_cache_def empty_cache_def)
    next
      case (Unreadable e)
      then show ?thesis by (simp add: load_cache_def load_cache_try_def empty_cache_def)
    next
      case (Parsed data)
      with bad show ?thesis
        by (cases data)
           (auto simp: load_cache_def load_cache_try_def empty_cache_def structural_problem_def
                       is_dict_def split: json.splits)
    qed
  qed
qed

theorem load_cache_structural_problem_witness:
  "structural_problem (example_files ''missing.json'')
   \<and> structural_problem (example_files ''bad.json'')
   \<and> structural_problem (example_files ''old.json'')
   \<and> structural_problem (example_files ''list.json'')
   \<and> structural_problem (example_files ''top.json'')
   \<and> load_cache example_files ''missing.json'' = Inr (JDict [(''version'', JInt 1), (''entries'', JDict [])])
   \<and> load_cache example_files ''bad.json'' = Inr (JDict [(''version'', JInt 1), (''entries'', JDict [])])
   \<and> load_cache example_files ''old.json'' = Inr (JDict [(''version'', JInt 1), (''entries'', JDict [])])
   \<and> load_cache example_files ''list.json'' = Inr (JDict [(''version'', JInt 1), (''entries'', JDict [])])
   \<and> load_cache example_files ''top.json'' = Inr (JDict [(''version'', JInt 1), (''entries'', JDict [])])"
proof -
  have p: "structural_problem (example_files ''missing.json'')"
    "structural_problem (example_files ''bad.json'')"
    "structural_problem (example_files ''old.json'')"
    "structural_problem (example_files ''list.json'')"
    "structural_problem (example_files ''top.json'')"
    by (simp_all add: structural_problem_def example_files_def py_ne_int_def dict_get_def
          CACHE_VERSION_def is_dict_def)
  from p
    load_cache_structural_problem [of example_files "''missing.json''"]
    load_cache_structural_problem [of example_files "''bad.json''"]
    load_cache_structural_problem [of example_files "''old.json''"]
    load_cache_structural_problem [of example_files "''list.json''"]
    load_cache_structural_problem [of example_files "''top.json''"]
  show ?thesis by (simp add: CACHE_VERSION_def)
qed

subsection \<open>Exit codes\<close>

lemma required_column_absent:
  "column_absent fieldnames requested \<Longrightarrow> \<exists>msg. required_column fieldnames requested label = Inl msg"
proof -
  assume a: "column_absent fieldnames requested"
  have "map_of (rev (map (\<lambda>name. (lower name, name)) fieldnames)) (lower requested) = None"
  proof -
    have "lower requested \<notin> fst ` set (rev (map (\<lambda>name. (lower name, name)) fieldnames))"
      using a by (force simp: column_absent_def)
    then show ?thesis by (simp add: map_of_eq_None_iff)
  qed
  with a show ?thesis by (simp add: required_column_def column_absent_def)
qed

lemma main_missing_column:
  assumes tol: "\<not> float_lt (tolerance_meters a) (Fin 0)"
    and key: "dry_run a \<or> truthy (api_key w)"
    and csv: "input_csv w = Inr (Some fieldnames, rows)"
    and absent: "column_absent fieldnames (id_column a) \<or> column_absent fieldnames (address_column a)
       \<or> column_absent fieldnames (lat_column a) \<or> column_absent fieldnames (lng_column a)"
  shows "\<exists>msg. main a w = SystemExit_raised msg"
proof -
  obtain cache where cache: "load_cache (files w) (case cache_file a of None \<Rightarrow> [] | Some p \<Rightarrow> p) = Inr cache"
    using load_cache_returns by blast
  have "\<exists>msg. required_column fieldnames (id_column a) ''id'' = Inl msg
        \<or> required_column fieldnames (address_column a) ''address'' = Inl msg
        \<or> required_column fieldnames (lat_column a) ''latitude'' = Inl msg
        \<or> required_column fieldnames (lng_column a) ''longitude'' = Inl msg"
    using absent required_column_absent by blast
  then show ?thesis
    using tol key csv cache
    by (auto simp: main_def Let_def split: sum.splits)
qed

text \<open>The exit status on each path of \<open>main\<close>: 2 from the three checks that \<open>return 2\<close>
  (negative tolerance, no credential outside a dry run, no header row), 1 where
  \<open>_required_column\<close> raises \<open>SystemExit\<close> with a message, 0 where \<open>main\<close> returns 0.\<close>

lemma exit_codes:
  "(float_lt (tolerance_meters a) (Fin 0) \<longrightarrow> exit_code (main a w) = 2)
   \<and> (\<not> float_lt (tolerance_meters a) (Fin 0) \<and> \<not> dry_run a \<and> \<not> truthy (api_key w) \<longrightarrow>
        exit_code (main a w) = 2)
   \<and> (\<not> float_lt (tolerance_meters a) (Fin 0) \<and> (dry_run a \<or> truthy (api_key w))
        \<and> input_csv w = Inr (None, rows) \<longrightarrow>
        exit_code (main a w) = 2)
   \<and> (\<not> float_lt (tolerance_meters a) (Fin 0) \<and> (dry_run a \<or> truthy (api_key w))
        \<and> input_csv w = Inr (Some fieldnames, rows)
        \<and> (column_absent fieldnames (id_column a) \<or> column_absent fieldnames (address_column a)
            \<or> column_absent fieldnames (lat_column a) \<or> column_absent fieldnames (lng_column a)) \<longrightarrow>
        (\<exists>msg. main a w = SystemExit_raised msg) \<and> exit_code (main a w) = 1)
   \<and> (main a w = Finished sm s \<or> main a w = Returned 0 \<longrightarrow> exit_code (main a w) = 0)"
proof -
  obtain cache where cache: "load_cache (files w) (case cache_file a of None \<Rightarrow> [] | Some p \<Rightarrow> p) = Inr cache"
    using load_cache_returns by blast
  have neg: "float_lt (tolerance_meters a) (Fin 0) \<longrightarrow> exit_code (main a w) = 2"
    by (simp add: main_def exit_code_def)
  have cred: "\<not> float_lt (tolerance_meters a) (Fin 0) \<and> \<not> dry_run a \<and> \<not> truthy (api_key w) \<longrightarrow>
        exit_code (main a w) = 2"
    by (simp add: main_def exit_code_def)
  have header: "\<not> float_lt (tolerance_meters a) (Fin 0) \<and> (dry_run a \<or> truthy (api_key w))
        \<and> input_csv w = Inr (None, rows) \<longrightarrow> exit_code (main a w) = 2"
    using cache by (auto simp: main_def exit_code_def Let_def)
  have column: "\<not> float_lt (tolerance_meters a) (Fin 0) \<and> (dry_run a \<or> truthy (api_key w))
        \<and> input_csv w = Inr (Some fieldnames, rows)
        \<and> (column_absent fieldnames (id_column a) \<or> column_absent fieldnames (address_column a)
            \<or> column_absent fieldnames (lat_column a) \<or> column_absent fieldnames (lng_column a)) \<longrightarrow>
        (\<exists>msg. main a w = SystemExit_raised msg) \<and> exit_code (main a w) = 1"
  proof
    assume h: "\<not> float_lt (tolerance_meters a) (Fin 0) \<and> (dry_run a \<or> truthy (api_key w))
        \<and> input_csv w = Inr (Some fieldnames, rows)
        \<and> (column_absent fieldnames (id_column a) \<or> column_absent fieldnames (address_column a)
            \<or> column_absent fieldnames (lat_column a) \<or> column_absent fieldnames (lng_column a))"
    then obtain msg where "main a w = SystemExit_raised msg"
      using main_missing_column [of a w fieldnames rows] by blast
    then show "(\<exists>msg. main a w = SystemExit_raised msg) \<and> exit_code (main a w) = 1"
      by (simp add: exit_code_def)
  qed
  have success: "main a w = Finished sm s \<or> main a w = Returned 0 \<longrightarrow> exit_code (main a w) = 0"
    by (auto simp: exit_code_def)
  from neg cred header column success show ?thesis by blast
qed

text \<open>C5, the code at a failing input. A dry run with a valid tolerance over a header that
  has no longitude column is a validation error like the three that \<open>main\<close> checks itself
  and answers with \<open>return 2\<close>; but \<open>_required_column\<close> raises \<open>SystemExit\<close> with a message,
  and the exit status of the process is 1. Next to it: the three sibling errors, with
  status 2, and two successful runs, with status 0.\<close>

theorem missing_column_exit_status:
  "column_absent [''id'', ''address'', ''latitude''] (lng_column dry_run_args)
   \<and> input_csv no_longitude_world = Inr (Some [''id'', ''address'', ''latitude''], [])
   \<and> exit_code (main dry_run_args no_longitude_world) = 1
   \<and> exit_code (main negative_tolerance_args example_world) = 2
   \<and> exit_code (main example_args no_key_world) = 2
   \<and> exit_code (main example_args no_header_world) = 2
   \<and> exit_code (main dry_run_args example_world) = 0
   \<and> exit_code (main example_args example_world) = 0"
proof -
  have absent: "column_absent [''id'', ''address'', ''latitude''] (lng_column dry_run_args)"
    by (simp add: column_absent_def dry_run_args_def example_args_def lower_def lower_char_def)
  have header: "input_csv no_longitude_world = Inr (Some [''id'', ''address'', ''latitude''], [])"
    by (simp add: no_longitude_world_def example_world_def)
  have h1: "float_lt (tolerance_meters negative_tolerance_args) (Fin 0)"
    by (simp add: negative_tolerance_args_def)
  have h2: "\<not> float_lt (tolerance_meters example_args) (Fin 0) \<and> \<not> dry_run example_args
            \<and> \<not> truthy (api_key no_key_world)"
    by (simp add: example_args_def no_key_world_def truthy_def)
  have h3: "\<not> float_lt (tolerance_meters example_args) (Fin 0)
            \<and> (dry_run example_args \<or> truthy (api_key no_header_world))
            \<and> input_csv no_header_world = Inr (None, [])"
    by (simp add: example_args_def no_header_world_def example_world_def truthy_def)
  have h4: "\<not> float_lt (tolerance_meters dry_run_args) (Fin 0)
            \<and> (dry_run dry_run_args \<or> truthy (api_key no_longitude_world))
            \<and> input_csv no_longitude_world = Inr (Some [''id'', ''address'', ''latitude''], [])
            \<and> (column_absent [''id'', ''address'', ''latitude''] (id_column dry_run_args)
                \<or> column_absent [''id'', ''address'', ''latitude''] (address_column dry_run_args)
                \<or> column_absent [''id'', ''address'', ''latitude''] (lat_column dry_run_args)
                \<or> column_absent [''id'', ''address'', ''latitude''] (lng_column dry_run_args))"
    by (simp add: dry_run_args_def example_args_def no_longitude_world_def example_world_def
          column_absent_def lower_def lower_char_def)
  have h5: "main dry_run_args example_world = Returned 0"
    by (simp add: dry_run_args_def ex_defs run_defs str_defs)
  obtain sm s where h6: "main example_args example_world = Finished sm s"
    using example_run by blast
  from h1 exit_codes [where a = negative_tolerance_args and w = example_world]
  have c1: "exit_code (main negative_tolerance_args example_world) = 2" by blast
  from h2 exit_codes [where a = example_args and w = no_key_world]
  have c2: "exit_code (main example_args no_key_world) = 2" by blast
  from h3 exit_codes [where a = example_args and w = no_header_world and rows = "[]"]
  have c3: "exit_code (main example_args no_header_world) = 2" by blast
  from h4 exit_codes [where a = dry_run_args and w = no_longitude_world
      and fieldnames = "[''id'', ''address'', ''latitude'']" and rows = "[]"]
  have c4: "exit_code (main dry_run_args no_longitude_world) = 1" by blast
  from h5 exit_codes [where a = dry_run_args and w = example_world]
  have c5: "exit_code (main dry_run_args example_world) = 0" by blast
  from h6 exit_codes [where a = example_args and w = example_world and sm = sm and s = s]
  have c6: "exit_code (main example_args example_world) = 0" by blast
  from absent header c1 c2 c3 c4 c5 c6 show ?thesis by blast
qed

subsection \<open>Parsing and validating coordinates\<close>

lemma py_float_only_ValueError: "py_float ops t = Inl e \<Longrightarrow> e = ValueError"
  by (auto simp: py_float_def Let_def split: prod.splits if_splits option.splits)

lemma parse_float_returns: "\<exists>v. parse_float ops x = Inr v"
proof (cases x)
  case (JStr t)
  show ?thesis
  proof (cases "py_float ops (strip t)")
    case (Inl e)
    then have "e = ValueError" by (rule py_float_only_ValueError)
    with Inl JStr show ?thesis by (simp add: parse_float_def Let_def)
  next
    case (Inr f)
    with JStr show ?thesis by (simp add: parse_float_def Let_def)
  qed
qed (simp_all add: parse_float_def)

lemma strip_ends:
  assumes "strip s \<noteq> []"
  shows "\<not> is_space (hd (strip s)) \<and> \<not> is_space (last (strip s))"
proof -
  define u where "u = dropWhile is_space s"
  define t where "t = dropWhile is_space (rev u)"
  have st: "strip s = rev t"
    by (simp add: strip_def t_def u_def)
  with assms have ne: "t \<noteq> []" by simp
  have split: "rev u = takeWhile is_space (rev u) @ t"
    by (simp add: t_def)
  with ne have "last (rev u) = last t"
    by (metis last_appendR)
  moreover from ne split have "u \<noteq> []" by auto
  ultimately have "last t = hd u"
    by (simp add: last_rev)
  moreover from \<open>u \<noteq> []\<close> have "\<not> is_space (hd u)"
    unfolding u_def by (rule hd_dropWhile)
  ultimately have first: "\<not> is_space (hd (rev t))"
    using ne by (simp add: hd_rev)
  from ne have "\<not> is_space (hd t)"
    unfolding t_def by (rule hd_dropWhile)
  with ne have "\<not> is_space (last (rev t))"
    by (simp add: last_rev)
  with first st show ?thesis by simp
qed

lemma is_c_space_is_space: "is_c_space c \<Longrightarrow> is_space c"
  by (auto simp: is_c_space_def is_space_def Let_def)

lemma c_strip_strip: "c_strip (strip s) = strip s"
proof (cases "strip s = []")
  case True
  then show ?thesis by (simp add: c_strip_def)
next
  case False
  then have ends: "\<not> is_c_space (hd (strip s))" "\<not> is_c_space (last (strip s))"
    using strip_ends [OF False] is_c_space_is_space by blast+
  from False ends(1) have front: "dropWhile is_c_space (strip s) = strip s"
    by (cases "strip s") auto
  from False ends(2) have "\<not> is_c_space (hd (rev (strip s)))"
    by (simp add: hd_rev)
  with False have "dropWhile is_c_space (rev (strip s)) = rev (strip s)"
    by (cases "rev (strip s)") auto
  with front show ?thesis
    by (simp add: c_strip_def)
qed

lemma non_finite_text_parse:
  assumes "non_finite_text t"
  shows "\<exists>f. parse_float ops (JStr t) = Inr (Some f) \<and> (f = NaN \<or> f = PosInf \<or> f = NegInf)"
proof -
  have ne: "strip t \<noteq> []"
    using assms by (auto simp: non_finite_text_def take_sign_def lower_def)
  obtain neg u where su: "take_sign (strip t) = (neg, u)"
    by (cases "take_sign (strip t)")
  with assms have "lower u = ''nan'' \<or> lower u = ''inf'' \<or> lower u = ''infinity''"
    by (simp add: non_finite_text_def)
  then have "\<exists>f. py_float ops (strip t) = Inr f \<and> (f = NaN \<or> f = PosInf \<or> f = NegInf)"
    using su by (auto simp: py_float_def c_strip_strip)
  with ne show ?thesis
    by (auto simp: parse_float_def)
qed

lemma is_valid_lat_lng_of_opt:
  "is_valid_lat_lng (of_opt lat) (of_opt lng) = Inr (\<not> stored_coordinates_invalid lat lng)"
proof (cases lat)
  case None
  then show ?thesis
    by (simp add: is_valid_lat_lng_def of_opt_def stored_coordinates_invalid_def)
next
  case (Some la)
  show ?thesis
  proof (cases lng)
    case None
    with Some show ?thesis
      by (simp add: is_valid_lat_lng_def of_opt_def stored_coordinates_invalid_def)
  next
    case (Some lo)
    with \<open>lat = Some la\<close> show ?thesis
      by (cases la; cases lo)
         (auto simp: is_valid_lat_lng_def of_opt_def stored_coordinates_invalid_def outside_def)
  qed
qed

lemma non_finite_invalid:
  "f = NaN \<or> f = PosInf \<or> f = NegInf \<Longrightarrow>
     stored_coordinates_invalid (Some f) g \<and> stored_coordinates_invalid g (Some f)"
  by (cases g) (auto simp: stored_coordinates_invalid_def outside_def)

subsection \<open>The cached lookup\<close>

lemma geocode_with_cache_counters:
  assumes "geocode_with_cache a w address s = (res, s')"
  shows "total_rows s' = total_rows s \<and> checked_rows s' = checked_rows s
         \<and> matched s' = matched s \<and> mismatched s' = mismatched s
         \<and> invalid_coord_mismatches s' = invalid_coord_mismatches s
         \<and> skipped_missing_address s' = skipped_missing_address s
         \<and> skipped_ambiguous s' = skipped_ambiguous s
         \<and> skipped_geocode_failure s' = skipped_geocode_failure s
         \<and> mismatches s' = mismatches s"
  using assms
  by (auto simp: geocode_with_cache_def Let_def split: option.splits sum.splits if_splits)

lemma geocode_with_cache_result_counters:
  "fst (geocode_with_cache a w address
          (s\<lparr>invalid_coord_mismatches := x, mismatched := y\<rparr>))
   = fst (geocode_with_cache a w address s)"
  by (auto simp: geocode_with_cache_def Let_def split: option.splits sum.splits if_splits)

lemma enrichment_failed_lookup: "enrichment rp (Inl e) = (JNull, JNull)"
  by (simp add: enrichment_def)

subsection \<open>Rows with invalid stored coordinates\<close>

lemma invalid_row_run:
  assumes address: "stripped_cell r address_col \<noteq> []"
    and lat: "parse_float (fp w) (row_get r lat_col) = Inr lat"
    and lng: "parse_float (fp w) (row_get r lng_col) = Inr lng"
    and invalid: "stored_coordinates_invalid lat lng"
  obtains res s2 glat glng where
    "geocode_with_cache a w (stripped_cell r address_col)
       (s\<lparr>invalid_coord_mismatches := invalid_coord_mismatches s + 1,
          mismatched := mismatched s + 1\<rparr>) = (res, s2)"
    and "enrichment (repr w) res = (glat, glng)"
    and "process_row a w address_col lat_col lng_col r s
         = Inr (s2\<lparr>mismatches := mismatches s2 @
                  [\<lparr>source_row = r, google_latitude = glat, google_longitude = glng,
                    distance_meters = None\<rparr>]\<rparr>)"
proof -
  define s1 where "s1 = s\<lparr>invalid_coord_mismatches := invalid_coord_mismatches s + 1,
                          mismatched := mismatched s + 1\<rparr>"
  obtain res s2 where gwc: "geocode_with_cache a w (stripped_cell r address_col) s1 = (res, s2)"
    by (cases "geocode_with_cache a w (stripped_cell r address_col) s1")
  obtain glat glng where enr: "enrichment (repr w) res = (glat, glng)"
    by (cases "enrichment (repr w) res")
  have "process_row a w address_col lat_col lng_col r s
         = Inr (s2\<lparr>mismatches := mismatches s2 @
                  [\<lparr>source_row = r, google_latitude = glat, google_longitude = glng,
                    distance_meters = None\<rparr>]\<rparr>)"
    using address lat lng invalid gwc enr
    by (simp add: process_row_def Let_def is_valid_lat_lng_of_opt s1_def)
  with gwc enr that show thesis
    unfolding s1_def by blast
qed

lemma invalid_row_outcome:
  assumes "stripped_cell r address_col \<noteq> []"
    and "parse_float (fp w) (row_get r lat_col) = Inr lat"
    and "parse_float (fp w) (row_get r lng_col) = Inr lng"
    and "stored_coordinates_invalid lat lng"
  shows "\<exists>s'. process_row a w address_col lat_col lng_col r s = Inr s'
           \<and> invalid_coordinates_mismatch r s s'"
proof -
  from assms obtain res s2 glat glng where
    gwc: "geocode_with_cache a w (stripped_cell r address_col)
       (s\<lparr>invalid_coord_mismatches := invalid_coord_mismatches s + 1,
          mismatched := mismatched s + 1\<rparr>) = (res, s2)"
    and run: "process_row a w address_col lat_col lng_col r s
         = Inr (s2\<lparr>mismatches := mismatches s2 @
                  [\<lparr>source_row = r, google_latitude = glat, google_longitude = glng,
                    distance_meters = None\<rparr>]\<rparr>)"
    by (rule invalid_row_run)
  from geocode_with_cache_counters [OF gwc]
  have "invalid_coordinates_mismatch r s
          (s2\<lparr>mismatches := mismatches s2 @
                  [\<lparr>source_row = r, google_latitude = glat, google_longitude = glng,
                    distance_meters = None\<rparr>]\<rparr>)"
    by (simp add: invalid_coordinates_mismatch_def)
  with run show ?thesis by blast
qed

text \<open>C1. A row with a non-empty address whose stored latitude or longitude parses to
  \<open>None\<close> or lies outside its range is classified Mismatched(InvalidCoordinates): the loop
  body returns normally, both mismatch counters go up by one and nothing else is counted,
  whatever the cache holds and whatever the provider does; the added mismatch row has an
  empty distance; and when the lookup raises, its provider coordinates are blank.\<close>

theorem invalid_coordinates_always_mismatched:
  assumes "stripped_cell r address_col \<noteq> []"
    and "parse_float (fp w) (row_get r lat_col) = Inr lat"
    and "parse_float (fp w) (row_get r lng_col) = Inr lng"
    and "stored_coordinates_invalid lat lng"
  shows "\<exists>s'. process_row a w address_col lat_col lng_col r s = Inr s'
           \<and> invalid_coordinates_mismatch r s s'
           \<and> (\<forall>e. fst (geocode_with_cache a w (stripped_cell r address_col) s) = Inl e \<longrightarrow>
                 mismatches s' = mismatches s @
                   [\<lparr>source_row = r, google_latitude = JNull, google_longitude = JNull,
                     distance_meters = None\<rparr>])"
proof -
  from assms obtain res s2 glat glng where
    gwc: "geocode_with_cache a w (stripped_cell r address_col)
       (s\<lparr>invalid_coord_mismatches := invalid_coord_mismatches s + 1,
          mismatched := mismatched s + 1\<rparr>) = (res, s2)"
    and enr: "enrichment (repr w) res = (glat, glng)"
    and run: "process_row a w address_col lat_col lng_col r s
         = Inr (s2\<lparr>mismatches := mismatches s2 @
                  [\<lparr>source_row = r, google_latitude = glat, google_longitude = glng,
                    distance_meters = None\<rparr>]\<rparr>)"
    by (rule invalid_row_run)
  define s' where "s' = s2\<lparr>mismatches := mismatches s2 @
      [\<lparr>source_row = r, google_latitude = glat, google_longitude = glng,
        distance_meters = None\<rparr>]\<rparr>"
  have keep: "invalid_coord_mismatches s2 = invalid_coord_mismatches s + 1
      \<and> mismatched s2 = mismatched s + 1 \<and> checked_rows s2 = checked_rows s
      \<and> matched s2 = matched s \<and> skipped_missing_address s2 = skipped_missing_address s
      \<and> skipped_ambiguous s2 = skipped_ambiguous s
      \<and> skipped_geocode_failure s2 = skipped_geocode_failure s
      \<and> mismatches s2 = mismatches s"
    using geocode_with_cache_counters [OF gwc] by simp
  then have outcome: "invalid_coordinates_mismatch r s s'"
    by (simp add: invalid_coordinates_mismatch_def s'_def)
  have blank: "\<forall>e. fst (geocode_with_cache a w (stripped_cell r address_col) s) = Inl e \<longrightarrow>
                 mismatches s' = mismatches s @
                   [\<lparr>source_row = r, google_latitude = JNull, google_longitude = JNull,
                     distance_meters = None\<rparr>]"
  proof (intro allI impI)
    fix e
    assume "fst (geocode_with_cache a w (stripped_cell r address_col) s) = Inl e"
    moreover have "fst (geocode_with_cache a w (stripped_cell r address_col)
          (s\<lparr>invalid_coord_mismatches := invalid_coord_mismatches s + 1,
             mismatched := mismatched s + 1\<rparr>))
        = fst (geocode_with_cache a w (stripped_cell r address_col) s)"
      by (rule geocode_with_cache_result_counters)
    ultimately have "res = Inl e"
      using gwc by simp
    with enr have "glat = JNull \<and> glng = JNull"
      by (simp add: enrichment_failed_lookup)
    with keep show "mismatches s' = mismatches s @
                   [\<lparr>source_row = r, google_latitude = JNull, google_longitude = JNull,
                     distance_meters = None\<rparr>]"
      by (simp add: s'_def)
  qed
  from run outcome blank show ?thesis
    unfolding s'_def by blast
qed

theorem invalid_coordinates_always_mismatched_witness:
  "(\<exists>s'. process_row example_args offline_world ''address'' ''latitude'' ''longitude''
            no_latitude_row (initial_state []) = Inr s'
         \<and> invalid_coordinates_mismatch no_latitude_row (initial_state []) s'
         \<and> mismatches s' =
             [\<lparr>source_row = no_latitude_row, google_latitude = JNull, google_longitude = JNull,
               distance_meters = None\<rparr>])
   \<and> (\<exists>s'. process_row example_args example_world ''address'' ''latitude'' ''longitude''
            no_latitude_row (initial_state []) = Inr s'
         \<and> invalid_coordinates_mismatch no_latitude_row (initial_state []) s'
         \<and> mismatches s' =
             [\<lparr>source_row = no_latitude_row, google_latitude = JFloat (Fin 40),
               google_longitude = JFloat (Fin (- 74)), distance_meters = None\<rparr>])"
proof -
  have address: "stripped_cell no_latitude_row ''address'' \<noteq> []"
    by (simp add: stripped_cell_def no_latitude_row_def example_row_def strip_def is_space_def)
  have lat: "parse_float exact_ops (row_get no_latitude_row ''latitude'') = Inr None"
    by (simp add: row_get_def no_latitude_row_def example_row_def parse_float_def strip_def)
  have lng: "parse_float exact_ops (row_get no_latitude_row ''longitude'') = Inr (Some (Fin (- 74)))"
    by (simp add: row_get_def no_latitude_row_def example_row_def str_defs float_defs)
  have off: "fp offline_world = exact_ops" and on: "fp example_world = exact_ops"
    by (simp_all add: offline_world_def example_world_def)
  note lat_off = lat [folded off] and lng_off = lng [folded off]
  note lat_on = lat [folded on] and lng_on = lng [folded on]
  have invalid: "stored_coordinates_invalid None (Some (Fin (- 74)))"
    by (simp add: stored_coordinates_invalid_def)
  have failed: "fst (geocode_with_cache example_args offline_world
                  (stripped_cell no_latitude_row ''address'') (initial_state []))
                = Inl TransportError"
    by (simp add: geocode_with_cache_def geocode_address_def offline_world_def example_args_def
          example_world_def truthy_def Let_def)
  from invalid_coordinates_always_mismatched [OF address lat_off lng_off invalid,
      where a = example_args and s = "initial_state []"] failed
  have offline: "\<exists>s'. process_row example_args offline_world ''address'' ''latitude'' ''longitude''
            no_latitude_row (initial_state []) = Inr s'
         \<and> invalid_coordinates_mismatch no_latitude_row (initial_state []) s'
         \<and> mismatches s' =
             [\<lparr>source_row = no_latitude_row, google_latitude = JNull, google_longitude = JNull,
               distance_meters = None\<rparr>]"
    by (auto simp: initial_state_def)
  from invalid_coordinates_always_mismatched [OF address lat_on lng_on invalid,
      where a = example_args and s = "initial_state []"]
  obtain s' where run: "process_row example_args example_world ''address'' ''latitude''
        ''longitude'' no_latitude_row (initial_state []) = Inr s'"
    and outcome: "invalid_coordinates_mismatch no_latitude_row (initial_state []) s'"
    by blast
  have "process_row example_args example_world ''address'' ''latitude''
        ''longitude'' no_latitude_row (initial_state [])
      = Inr (initial_state []
          \<lparr>invalid_coord_mismatches := 1, mismatched := 1, cache_misses := 1,
           events := [NetworkCall ''1 Main St''],
           mismatches := [\<lparr>source_row = no_latitude_row, google_latitude = JFloat (Fin 40),
               google_longitude = JFloat (Fin (- 74)), distance_meters = None\<rparr>]\<rparr>)"
    by (simp add: ex_defs run_defs str_defs float_defs Let_def)
  with run have "s' = initial_state []
          \<lparr>invalid_coord_mismatches := 1, mismatched := 1, cache_misses := 1,
           events := [NetworkCall ''1 Main St''],
           mismatches := [\<lparr>source_row = no_latitude_row, google_latitude = JFloat (Fin 40),
               google_longitude = JFloat (Fin (- 74)), distance_meters = None\<rparr>]\<rparr>"
    by simp
  then have "mismatches s' =
             [\<lparr>source_row = no_latitude_row, google_latitude = JFloat (Fin 40),
               google_longitude = JFloat (Fin (- 74)), distance_meters = None\<rparr>]"
    by simp
  with run outcome offline show ?thesis by blast
qed

text \<open>C10. \<open>_parse_float\<close> returns a float or \<open>None\<close> for every value, strings among them,
  and never raises. Text that reads as a NaN or an infinity parses to that float, which no
  range check accepts, and a row with a non-empty address and such a latitude or longitude
  cell is classified Mismatched(InvalidCoordinates).\<close>

theorem parse_float_total_non_finite_invalid:
  "(\<exists>v. parse_float ops x = Inr v)
   \<and> (non_finite_text t \<longrightarrow>
        (\<exists>f. parse_float ops (JStr t) = Inr (Some f) \<and> (f = NaN \<or> f = PosInf \<or> f = NegInf)
              \<and> is_valid_lat_lng (of_opt (Some f)) (of_opt g) = Inr False
              \<and> is_valid_lat_lng (of_opt g) (of_opt (Some f)) = Inr False))
   \<and> (non_finite_text t \<and> (r lat_col = Some t \<or> r lng_col = Some t)
        \<and> stripped_cell r address_col \<noteq> [] \<longrightarrow>
        (\<exists>s'. process_row a w address_col lat_col lng_col r s = Inr s'
               \<and> invalid_coordinates_mismatch r s s'))"
proof (intro conjI impI)
  show "\<exists>v. parse_float ops x = Inr v"
    by (rule parse_float_returns)
next
  assume "non_finite_text t"
  then obtain f where f: "parse_float ops (JStr t) = Inr (Some f)"
    and nf: "f = NaN \<or> f = PosInf \<or> f = NegInf"
    using non_finite_text_parse by blast
  from nf have "stored_coordinates_invalid (Some f) g \<and> stored_coordinates_invalid g (Some f)"
    by (rule non_finite_invalid)
  then have "is_valid_lat_lng (of_opt (Some f)) (of_opt g) = Inr False
              \<and> is_valid_lat_lng (of_opt g) (of_opt (Some f)) = Inr False"
    by (simp add: is_valid_lat_lng_of_opt)
  with f nf show "\<exists>f. parse_float ops (JStr t) = Inr (Some f) \<and> (f = NaN \<or> f = PosInf \<or> f = NegInf)
              \<and> is_valid_lat_lng (of_opt (Some f)) (of_opt g) = Inr False
              \<and> is_valid_lat_lng (of_opt g) (of_opt (Some f)) = Inr False"
    by blast
next
  assume h: "non_finite_text t \<and> (r lat_col = Some t \<or> r lng_col = Some t)
        \<and> stripped_cell r address_col \<noteq> []"
  then obtain f where f: "parse_float (fp w) (JStr t) = Inr (Some f)"
    and nf: "f = NaN \<or> f = PosInf \<or> f = NegInf"
    using non_finite_text_parse by blast
  obtain lat where lat: "parse_float (fp w) (row_get r lat_col) = Inr lat"
    using parse_float_returns by blast
  obtain lng where lng: "parse_float (fp w) (row_get r lng_col) = Inr lng"
    using parse_float_returns by blast
  from h f lat lng have "lat = Some f \<or> lng = Some f"
    by (auto simp: row_get_def)
  with nf have "stored_coordinates_invalid lat lng"
    using non_finite_invalid by blast
  with h lat lng show "\<exists>s'. process_row a w address_col lat_col lng_col r s = Inr s'
               \<and> invalid_coordinates_mismatch r s s'"
    using invalid_row_outcome [where r = r and address_col = address_col and lat_col = lat_col
        and lng_col = lng_col and lat = lat and lng = lng and a = a and w = w and s = s]
    by blast
qed

theorem parse_float_total_non_finite_invalid_witness:
  "non_finite_text '' NaN '' \<and> non_finite_text ''-inf''
   \<and> parse_float exact_ops (JStr '' NaN '') = Inr (Some NaN)
   \<and> parse_float exact_ops (JStr ''-inf'') = Inr (Some NegInf)
   \<and> parse_float exact_ops (JStr ''12 Main St'') = Inr None
   \<and> is_valid_lat_lng (JFloat NaN) (JFloat (Fin (- 74))) = Inr False
   \<and> (\<exists>s'. process_row example_args example_world ''address'' ''latitude'' ''longitude''
              nan_latitude_row (initial_state []) = Inr s'
            \<and> invalid_coordinates_mismatch nan_latitude_row (initial_state []) s')"
proof -
  have nan: "non_finite_text '' NaN ''"
    by (simp add: non_finite_text_def take_sign_def str_defs)
  have inf: "non_finite_text ''-inf''"
    by (simp add: non_finite_text_def take_sign_def str_defs)
  have cell: "nan_latitude_row ''latitude'' = Some '' NaN ''"
    by (simp add: nan_latitude_row_def)
  have address: "stripped_cell nan_latitude_row ''address'' \<noteq> []"
    by (simp add: stripped_cell_def nan_latitude_row_def example_row_def strip_def is_space_def)
  have p1: "parse_float exact_ops (JStr '' NaN '') = Inr (Some NaN)"
    by (simp add: str_defs float_defs)
  have p2: "parse_float exact_ops (JStr ''-inf'') = Inr (Some NegInf)"
    by (simp add: str_defs float_defs)
  have p3: "parse_float exact_ops (JStr ''12 Main St'') = Inr None"
    by (simp add: str_defs float_defs)
  from nan p1
    parse_float_total_non_finite_invalid [where t = "'' NaN ''" and g = "Some (Fin (- 74))"
      and ops = exact_ops]
  have v: "is_valid_lat_lng (JFloat NaN) (JFloat (Fin (- 74))) = Inr False"
    by (auto simp: of_opt_def)
  from nan cell address
    parse_float_total_non_finite_invalid [where t = "'' NaN ''" and r = nan_latitude_row
      and lat_col = "''latitude''" and lng_col = "''longitude''" and address_col = "''address''"
      and a = example_args and w = example_world and s = "initial_state []"]
  have "\<exists>s'. process_row example_args example_world ''address'' ''latitude'' ''longitude''
              nan_latitude_row (initial_state []) = Inr s'
            \<and> invalid_coordinates_mismatch nan_latitude_row (initial_state []) s'"
    by blast
  with nan inf p1 p2 p3 v show ?thesis by blast
qed

subsection \<open>Rows that reach the distance check\<close>

lemma valid_numbers_finite:
  "is_valid_lat_lng x y = Inr True \<Longrightarrow> \<exists>p q. num_of x = Some (Fin p) \<and> num_of y = Some (Fin q)"
proof -
  assume v: "is_valid_lat_lng x y = Inr True"
  then obtain la lo where la: "num_of x = Some la" and lo: "num_of y = Some lo"
    by (auto simp: is_valid_lat_lng_def split: if_splits option.splits)
  with v have "float_le (Fin (- 90)) la \<and> float_le la (Fin 90)
               \<and> float_le (Fin (- 180)) lo \<and> float_le lo (Fin 180)"
    by (auto simp: is_valid_lat_lng_def split: if_splits)
  then have "(\<exists>p. la = Fin p) \<and> (\<exists>q. lo = Fin q)"
    by (cases la; cases lo) auto
  with la lo show ?thesis by auto
qed

lemma stored_valid_finite:
  "\<not> stored_coordinates_invalid lat lng \<Longrightarrow> \<exists>p q. lat = Some (Fin p) \<and> lng = Some (Fin q)"
  by (cases lat; cases lng)
     (auto simp: stored_coordinates_invalid_def outside_def split: pyfloat.splits)

text \<open>The last case of \<open>compare_row\<close> is never taken: with valid stored coordinates, a
  result that passes the status, range and ambiguity checks is always compared, unless
  the distance computation raises.\<close>

lemma compare_row_checked:
  assumes "\<not> stored_coordinates_invalid lat lng"
    and "status res = ''OK''"
    and "is_valid_lat_lng (latitude res) (longitude res) = Inr True"
    and "ambiguous_reason (repr w) res = Inr None"
  shows "(\<exists>s'. compare_row a w r lat lng res s = Inr s' \<and> checked_rows s' = checked_rows s + 1)
         \<or> compare_row a w r lat lng res s = Inl ValueError"
proof -
  from assms(1) obtain p q where stored: "lat = Some (Fin p)" "lng = Some (Fin q)"
    using stored_valid_finite by blast
  from assms(3) obtain gp gq where
    found: "num_of (latitude res) = Some (Fin gp)" "num_of (longitude res) = Some (Fin gq)"
    using valid_numbers_finite by blast
  show ?thesis
  proof (cases "haversine_meters (fp w) p q gp gq")
    case (Inl e)
    then have "e = ValueError" by (rule haversine_only_ValueError)
    with Inl stored found assms(2-4) show ?thesis
      by (simp add: compare_row_def Let_def)
  next
    case (Inr d)
    with stored found assms(2-4) show ?thesis
      by (simp add: compare_row_def Let_def)
  qed
qed

text \<open>The distance is computed outside any \<open>try\<close>: when \<open>_haversine_meters\<close> raises on a row
  that reached it, the exception leaves the loop body, and the loop.\<close>

lemma compare_row_distance_error:
  assumes "status res = ''OK''"
    and "is_valid_lat_lng (latitude res) (longitude res) = Inr True"
    and "ambiguous_reason (repr w) res = Inr None"
    and "num_of (latitude res) = Some (Fin gp)" and "num_of (longitude res) = Some (Fin gq)"
    and "haversine_meters (fp w) p q gp gq = Inl e"
  shows "compare_row a w r (Some (Fin p)) (Some (Fin q)) res s = Inl e"
  using assms by (simp add: compare_row_def Let_def)

lemma process_rows_error:
  assumes "process_row a w address_col lat_col lng_col r (s\<lparr>total_rows := total_rows s + 1\<rparr>) = Inl e"
    and "max_rows a = None"
  shows "process_rows a w address_col lat_col lng_col (r # rs) s = Inl e"
  using assms by simp

subsection \<open>A provider reply without results\<close>

lemma geocode_address_no_results:
  assumes "fetch_fn address = Inr payload" and "ok_without_results payload"
  shows "\<exists>em. geocode_address ops rp fetch_fn address =
           Inr \<lparr>status = ''NO_RESULTS'', formatted_address = JNull, latitude = JNull,
                longitude = JNull, result_count = 0, partial_match = False,
                location_type = JNull, error_message = em, raw = payload\<rparr>"
proof -
  from assms(2) obtain d where d: "payload = JDict d"
    and st: "map_of d ''status'' = Some (JStr ''OK'')"
    and rs: "map_of d ''results'' = Some (JList [])"
    by (cases payload) (auto simp: ok_without_results_def)
  with assms(1) show ?thesis
    by (simp add: geocode_address_def dict_get_def py_str_def Let_def)
qed

text \<open>C3. When the provider's reply has the top-level status \<open>OK\<close> and an empty list of
  results, \<open>geocode_address\<close> returns a result with the status \<open>NO_RESULTS\<close>, not \<open>OK\<close>, and
  without coordinates; a row with a non-empty address and valid stored coordinates whose
  address is not in the cache, and so is looked up at the provider, is then classified
  Skipped(GeocodeFailure).\<close>

theorem ok_without_results_is_geocode_failure:
  "(fetch_fn address = Inr payload \<and> ok_without_results payload \<longrightarrow>
      (\<exists>res. geocode_address ops rp fetch_fn address = Inr res
             \<and> status res = ''NO_RESULTS'' \<and> status res \<noteq> ''OK'' \<and> result_count res = 0
             \<and> latitude res = JNull \<and> longitude res = JNull))
   \<and> (fetch w (stripped_cell r address_col) = Inr payload \<and> ok_without_results payload
        \<and> stripped_cell r address_col \<noteq> []
        \<and> parse_float (fp w) (row_get r lat_col) = Inr lat
        \<and> parse_float (fp w) (row_get r lng_col) = Inr lng
        \<and> \<not> stored_coordinates_invalid lat lng
        \<and> map_of (cache_entries s) (normalize_address (stripped_cell r address_col)) = None \<longrightarrow>
      (\<exists>s'. process_row a w address_col lat_col lng_col r s = Inr s'
             \<and> skipped_as_geocode_failure s s'))"
proof (intro conjI impI)
  assume "fetch_fn address = Inr payload \<and> ok_without_results payload"
  then obtain em where "geocode_address ops rp fetch_fn address =
           Inr \<lparr>status = ''NO_RESULTS'', formatted_address = JNull, latitude = JNull,
                longitude = JNull, result_count = 0, partial_match = False,
                location_type = JNull, error_message = em, raw = payload\<rparr>"
    using geocode_address_no_results by blast
  then show "\<exists>res. geocode_address ops rp fetch_fn address = Inr res
             \<and> status res = ''NO_RESULTS'' \<and> status res \<noteq> ''OK'' \<and> result_count res = 0
             \<and> latitude res = JNull \<and> longitude res = JNull"
    by simp
next
  assume h: "fetch w (stripped_cell r address_col) = Inr payload \<and> ok_without_results payload
        \<and> stripped_cell r address_col \<noteq> []
        \<and> parse_float (fp w) (row_get r lat_col) = Inr lat
        \<and> parse_float (fp w) (row_get r lng_col) = Inr lng
        \<and> \<not> stored_coordinates_invalid lat lng
        \<and> map_of (cache_entries s) (normalize_address (stripped_cell r address_col)) = None"
  define address where "address = stripped_cell r address_col"
  from h obtain em where live: "geocode_address (fp w) (repr w) (fetch w) address =
           Inr \<lparr>status = ''NO_RESULTS'', formatted_address = JNull, latitude = JNull,
                longitude = JNull, result_count = 0, partial_match = False,
                location_type = JNull, error_message = em, raw = payload\<rparr>"
    unfolding address_def using geocode_address_no_results by blast
  obtain res s1 where gwc: "geocode_with_cache a w address s = (res, s1)"
    by (cases "geocode_with_cache a w address s")
  from h live gwc have res: "res = Inr \<lparr>status = ''NO_RESULTS'', formatted_address = JNull,
                latitude = JNull, longitude = JNull, result_count = 0, partial_match = False,
                location_type = JNull, error_message = em, raw = payload\<rparr>"
    by (auto simp: geocode_with_cache_def Let_def address_def split: if_splits)
  have run: "process_row a w address_col lat_col lng_col r s
             = Inr (s1\<lparr>skipped_geocode_failure := skipped_geocode_failure s1 + 1\<rparr>)"
    using h gwc res
    by (simp add: process_row_def Let_def is_valid_lat_lng_of_opt compare_row_def address_def)
  from geocode_with_cache_counters [OF gwc]
  have "skipped_as_geocode_failure s
          (s1\<lparr>skipped_geocode_failure := skipped_geocode_failure s1 + 1\<rparr>)"
    by (simp add: skipped_as_geocode_failure_def)
  with run show "\<exists>s'. process_row a w address_col lat_col lng_col r s = Inr s'
             \<and> skipped_as_geocode_failure s s'"
    by blast
qed

theorem ok_without_results_is_geocode_failure_witness:
  "ok_without_results (ok_payload [])
   \<and> (\<exists>res. geocode_address exact_ops example_repr (fetch no_results_world) ''1 Main St'' = Inr res
            \<and> status res = ''NO_RESULTS'' \<and> result_count res = 0)
   \<and> (\<exists>s'. process_row example_args no_results_world ''address'' ''latitude'' ''longitude''
              example_row (initial_state []) = Inr s'
            \<and> skipped_as_geocode_failure (initial_state []) s')"
proof -
  have payload: "ok_without_results (ok_payload [])"
    by (simp add: ok_without_results_def ok_payload_def)
  have reply: "fetch no_results_world ''1 Main St'' = Inr (ok_payload [])"
    by (simp add: no_results_world_def)
  have address: "stripped_cell example_row ''address'' = ''1 Main St''"
    by (simp add: stripped_cell_def example_row_def strip_def is_space_def)
  have lat: "parse_float exact_ops (row_get example_row ''latitude'') = Inr (Some (Fin 40))"
    by (simp add: row_get_def example_row_def str_defs float_defs)
  have lng: "parse_float exact_ops (row_get example_row ''longitude'') = Inr (Some (Fin (- 74)))"
    by (simp add: row_get_def example_row_def str_defs float_defs)
  have valid: "\<not> stored_coordinates_invalid (Some (Fin 40)) (Some (Fin (- 74)))"
    by (simp add: stored_coordinates_invalid_def outside_def)
  have miss: "map_of (cache_entries (initial_state []))
                (normalize_address (stripped_cell example_row ''address'')) = None"
    by (simp add: initial_state_def)
  from payload reply
    ok_without_results_is_geocode_failure [where fetch_fn = "fetch no_results_world"
      and address = "''1 Main St''" and payload = "ok_payload []" and rp = example_repr
      and ops = exact_ops]
  have first: "\<exists>res. geocode_address exact_ops example_repr (fetch no_results_world) ''1 Main St'' = Inr res
            \<and> status res = ''NO_RESULTS'' \<and> result_count res = 0"
    by blast
  have arith: "fp no_results_world = exact_ops"
    by (simp add: no_results_world_def example_world_def)
  from payload reply address lat lng valid miss arith
    ok_without_results_is_geocode_failure [where w = no_results_world and r = example_row
      and address_col = "''address''" and lat_col = "''latitude''" and lng_col = "''longitude''"
      and payload = "ok_payload []" and lat = "Some (Fin 40)" and lng = "Some (Fin (- 74))"
      and s = "initial_state []" and a = example_args]
  have second: "\<exists>s'. process_row example_args no_results_world ''address'' ''latitude''
              ''longitude'' example_row (initial_state []) = Inr s'
            \<and> skipped_as_geocode_failure (initial_state []) s'"
    by simp
  from payload first second show ?thesis by blast
qed

subsection \<open>The delay between requests\<close>

text \<open>C6, the code at two inputs, both with \<open>--sleep-ms 100\<close>. First run: the one row is
  answered from the cache, no request is made, and the run sleeps. Second run: the one row
  is looked up at the provider, the lookup succeeds with two results, the row is skipped
  as ambiguous, and the run does not sleep after the request.\<close>

theorem sleep_follows_checked_row_not_lookup:
  "(\<exists>sm s. main cached_args cached_world = Finished sm s
       \<and> cache_hits s = 1 \<and> cache_misses s = 0 \<and> checked_rows s = 1
       \<and> events s = [Sleep 100])
   \<and> (\<exists>sm s. main delayed_args two_results_world = Finished sm s
       \<and> cache_hits s = 0 \<and> cache_misses s = 1 \<and> skipped_ambiguous s = 1
       \<and> events s = [NetworkCall ''1 Main St''])"
proof
  show "\<exists>sm s. main cached_args cached_world = Finished sm s
       \<and> cache_hits s = 1 \<and> cache_misses s = 0 \<and> checked_rows s = 1
       \<and> events s = [Sleep 100]"
    by (simp add: cached_args_def cached_world_def cached_entry_def load_cache_try_def
          py_ne_int_def ex_defs run_defs str_defs float_defs haversine_same_point Let_def)
  show "\<exists>sm s. main delayed_args two_results_world = Finished sm s
       \<and> cache_hits s = 0 \<and> cache_misses s = 1 \<and> skipped_ambiguous s = 1
       \<and> events s = [NetworkCall ''1 Main St'']"
    by (simp add: delayed_args_def two_results_world_def ex_defs run_defs str_defs float_defs
          str_int_def str_nat.simps Let_def)
qed

subsection \<open>Normalising an address\<close>

lemma split_acc_word_nonempty: "[] \<notin> set (split_acc w s)"
  by (induction s arbitrary: w) auto

lemma join_empty_iff: "[] \<notin> set ws \<Longrightarrow> join sep ws = [] \<longleftrightarrow> ws = []"
  by (induction sep ws rule: join.induct) auto

lemma join_Cons: "join sep (w # ws) = (if ws = [] then w else w @ sep @ join sep ws)"
  by (cases ws) auto

lemma squeeze_pending:
  "squeeze True True s = (if squeeze False False s = [] then [] else CHR '' '' # squeeze False False s)"
  by (induction s) auto

lemma join_split_acc:
  "join '' '' (split_acc w s) = (if w = [] then squeeze False False s else w @ squeeze True False s)"
proof (induction s arbitrary: w)
  case Nil
  then show ?case by simp
next
  case (Cons c cs)
  show ?case
  proof (cases "is_space c")
    case False
    then show ?thesis by (simp add: Cons.IH)
  next
    case True
    have words: "squeeze False False cs = [] \<longleftrightarrow> split_acc [] cs = []"
      using Cons.IH [of "[]"] join_empty_iff [OF split_acc_word_nonempty, where sep = "'' ''" and w1 = "[]" and s1 = cs]
      by simp
    show ?thesis
    proof (cases "w = []")
      case True
      with \<open>is_space c\<close> show ?thesis using Cons.IH [of "[]"] by simp
    next
      case False
      with \<open>is_space c\<close> words show ?thesis
        using Cons.IH [of "[]"] by (simp add: join_Cons squeeze_pending)
    qed
  qed
qed

lemma squeeze_all_space: "list_all is_space s \<Longrightarrow> squeeze st pd s = []"
  by (induction s arbitrary: pd) auto

lemma squeeze_leading: "list_all is_space l \<Longrightarrow> squeeze False False (l @ s) = squeeze False False s"
  by (induction l) auto

lemma squeeze_trailing: "list_all is_space t \<Longrightarrow> squeeze st pd (s @ t) = squeeze st pd s"
  by (induction s arbitrary: st pd) (auto simp: squeeze_all_space)

lemma squeeze_run_front:
  "w \<noteq> [] \<Longrightarrow> list_all is_space w \<Longrightarrow> squeeze st pd (w @ v) = squeeze st st v"
proof (induction w arbitrary: pd)
  case Nil
  then show ?case by simp
next
  case (Cons c w)
  then show ?case by (cases "w = []") auto
qed

lemma squeeze_run:
  assumes "w1 \<noteq> []" "w2 \<noteq> []" "list_all is_space w1" "list_all is_space w2"
  shows "squeeze st pd (u @ w1 @ v) = squeeze st pd (u @ w2 @ v)"
proof (induction u arbitrary: st pd)
  case Nil
  from assms show ?case by (simp add: squeeze_run_front)
next
  case (Cons c u)
  then show ?case by simp
qed

lemma squeeze_dropWhile: "squeeze False False (dropWhile is_space s) = squeeze False False s"
  by (induction s) auto

lemma squeeze_started_dropWhile: "squeeze True False (dropWhile is_space s) = squeeze False False s"
  by (induction s) auto

lemma rstrip_Cons:
  "rev (dropWhile P (rev xs @ [x]))
     = (if P x \<and> list_all P xs then [] else x # rev (dropWhile P (rev xs)))"
  by (auto simp: dropWhile_append list_all_iff)

lemma squeeze_rstrip: "squeeze st pd (rev (dropWhile is_space (rev s))) = squeeze st pd s"
proof (induction s arbitrary: st pd)
  case Nil
  then show ?case by simp
next
  case (Cons c cs)
  show ?case
  proof (cases "is_space c \<and> list_all is_space cs")
    case True
    then have "squeeze st pd (c # cs) = []"
      by (simp add: squeeze_all_space)
    with True show ?thesis
      by (simp add: rstrip_Cons)
  next
    case False
    then show ?thesis
      by (simp add: rstrip_Cons Cons.IH)
  qed
qed

lemma squeeze_strip: "squeeze False False (strip s) = squeeze False False s"
  by (simp add: strip_def squeeze_rstrip squeeze_dropWhile)

lemma normalize_address_squeeze: "normalize_address s = squeeze False False s"
  by (simp add: normalize_address_def split_ws_def join_split_acc squeeze_strip)

lemma collapse_all_space: "list_all is_space (collapse_ws b s) \<longleftrightarrow> list_all is_space s"
  by (induction s arbitrary: b) (auto simp: is_space_def)

lemma rstrip_collapse:
  "rev (dropWhile is_space (rev (collapse_ws False s))) = squeeze True False s
   \<and> squeeze True True s
       = (if list_all is_space s then []
          else CHR '' '' # rev (dropWhile is_space (rev (collapse_ws True s))))"
proof (induction s)
  case Nil
  then show ?case by simp
next
  case (Cons c cs)
  have sp: "is_space (CHR '' '')" by (simp add: is_space_def)
  show ?case
  proof (cases "is_space c")
    case True
    have "rev (dropWhile is_space (rev (collapse_ws True cs) @ '' ''))
          = (if list_all is_space cs then []
             else CHR '' '' # rev (dropWhile is_space (rev (collapse_ws True cs))))"
      by (simp add: rstrip_Cons sp collapse_all_space)
    with True Cons.IH show ?thesis by simp
  next
    case False
    have "\<And>b. rev (dropWhile is_space (rev (collapse_ws b cs) @ [c]))
          = c # rev (dropWhile is_space (rev (collapse_ws b cs)))"
      using False by (simp add: rstrip_Cons)
    with False Cons.IH show ?thesis by simp
  qed
qed

lemma dropWhile_collapse:
  "dropWhile is_space (collapse_ws b s) = collapse_ws False (dropWhile is_space s)"
proof (induction s arbitrary: b)
  case Nil
  then show ?case by simp
next
  case (Cons c cs)
  have sp: "is_space (CHR '' '')" by (simp add: is_space_def)
  show ?case
  proof (cases "is_space c")
    case True
    with sp show ?thesis by (simp add: Cons.IH)
  next
    case False
    then show ?thesis by simp
  qed
qed

lemma normalize_address_collapse_and_trim: "normalize_address s = collapse_and_trim s"
proof -
  have "collapse_and_trim s
        = rev (dropWhile is_space (rev (collapse_ws False (dropWhile is_space s))))"
    by (simp add: collapse_and_trim_def strip_def dropWhile_collapse)
  also have "\<dots> = squeeze True False (dropWhile is_space s)"
    using rstrip_collapse [of "dropWhile is_space s"] by blast
  also have "\<dots> = squeeze False False s"
    by (rule squeeze_started_dropWhile)
  finally show ?thesis by (simp add: normalize_address_squeeze)
qed

lemma ws_variant_same_key: "ws_variant a b \<Longrightarrow> normalize_address a = normalize_address b"
proof (induction rule: ws_variant.induct)
  case (same a)
  show ?case by simp
next
  case (leading l a)
  then show ?case by (simp add: normalize_address_squeeze squeeze_leading)
next
  case (trailing t a)
  then show ?case by (simp add: normalize_address_squeeze squeeze_trailing)
next
  case (run w1 w2 u v)
  then show ?case by (simp add: normalize_address_squeeze squeeze_run [of w1 w2])
next
  case (sym a b)
  then show ?case by simp
next
  case (trans a b c)
  then show ?case by simp
qed

subsection \<open>The cache round trip\<close>

lemma cache_entry_round_trip:
  "cache_entry_to_geocode_result rp (geocode_result_to_cache_entry res) = Some (res\<lparr>raw := JDict []\<rparr>)"
  by (cases res)
     (simp add: cache_entry_to_geocode_result_def geocode_result_to_cache_entry_def dict_get_def
        py_str_def)

lemma geocode_with_cache_hit:
  assumes "truthy (cache_file a)"
    and "map_of (cache_entries s) (normalize_address address) = Some entry"
    and "cache_entry_to_geocode_result (repr w) entry = Some res"
  shows "geocode_with_cache a w address s = (Inr res, s\<lparr>cache_hits := cache_hits s + 1\<rparr>)"
  using assms by (simp add: geocode_with_cache_def Let_def)

lemma geocode_with_cache_put:
  assumes "truthy (cache_file a)"
    and "geocode_with_cache a w address s0 = (Inr res, s)"
    and "cache_misses s = cache_misses s0 + 1"
  shows "map_of (cache_entries s) (normalize_address address)
         = Some (geocode_result_to_cache_entry res)"
  using assms
  by (auto simp: geocode_with_cache_def Let_def update_conv' split: option.splits sum.splits)

text \<open>C7. With a cache file configured: a live lookup stores its result under the
  normalised address (put); and once a result is stored under an address, a lookup with
  any whitespace variant of that address returns it (all fields but the raw payload,
  which the cache does not keep), makes no request, adds one to the hit counter and
  leaves the miss counter and the cache as they are (get). The key of an address is the
  address with every run of whitespace collapsed to one space and the ends trimmed.\<close>

theorem cache_round_trip:
  assumes "truthy (cache_file a)" and "ws_variant address' address"
  shows "(geocode_with_cache a w address s0 = (Inr res, s) \<and> cache_misses s = cache_misses s0 + 1 \<longrightarrow>
            map_of (cache_entries s) (normalize_address address)
              = Some (geocode_result_to_cache_entry res))
         \<and> (map_of (cache_entries s) (normalize_address address)
              = Some (geocode_result_to_cache_entry res) \<longrightarrow>
            (\<exists>s'. geocode_with_cache a w address' s = (Inr (res\<lparr>raw := JDict []\<rparr>), s')
                  \<and> cache_hits s' = cache_hits s + 1
                  \<and> cache_misses s' = cache_misses s
                  \<and> events s' = events s
                  \<and> cache_entries s' = cache_entries s))
         \<and> normalize_address address' = collapse_and_trim address'
         \<and> normalize_address address' = normalize_address address"
proof (intro conjI impI)
  assume "geocode_with_cache a w address s0 = (Inr res, s) \<and> cache_misses s = cache_misses s0 + 1"
  with assms(1) show "map_of (cache_entries s) (normalize_address address)
              = Some (geocode_result_to_cache_entry res)"
    using geocode_with_cache_put by blast
next
  assume stored: "map_of (cache_entries s) (normalize_address address)
              = Some (geocode_result_to_cache_entry res)"
  from assms(2) have key: "normalize_address address' = normalize_address address"
    by (rule ws_variant_same_key)
  have "geocode_with_cache a w address' s
        = (Inr (res\<lparr>raw := JDict []\<rparr>), s\<lparr>cache_hits := cache_hits s + 1\<rparr>)"
  proof (rule geocode_with_cache_hit)
    show "truthy (cache_file a)" by (rule assms(1))
    show "map_of (cache_entries s) (normalize_address address')
          = Some (geocode_result_to_cache_entry res)"
      using stored key by simp
    show "cache_entry_to_geocode_result (repr w) (geocode_result_to_cache_entry res)
          = Some (res\<lparr>raw := JDict []\<rparr>)"
      by (rule cache_entry_round_trip)
  qed
  then show "\<exists>s'. geocode_with_cache a w address' s = (Inr (res\<lparr>raw := JDict []\<rparr>), s')
                  \<and> cache_hits s' = cache_hits s + 1
                  \<and> cache_misses s' = cache_misses s
                  \<and> events s' = events s
                  \<and> cache_entries s' = cache_entries s"
    by simp
next
  show "normalize_address address' = collapse_and_trim address'"
    by (rule normalize_address_collapse_and_trim)
next
  from assms(2) show "normalize_address address' = normalize_address address"
    by (rule ws_variant_same_key)
qed

theorem cache_round_trip_witness:
  "ws_variant ''  1   Main St  '' ''1 Main St''
   \<and> normalize_address ''  1   Main St  '' = ''1 Main St''
   \<and> collapse_and_trim ''  1   Main St  '' = ''1 Main St''
   \<and> (\<exists>res s s'.
         geocode_with_cache cached_args example_world ''1 Main St'' (initial_state []) = (Inr res, s)
         \<and> cache_hits s = 0 \<and> cache_misses s = 1 \<and> events s = [NetworkCall ''1 Main St'']
         \<and> geocode_with_cache cached_args example_world ''  1   Main St  '' s
             = (Inr (res\<lparr>raw := JDict []\<rparr>), s')
         \<and> cache_hits s' = 1 \<and> cache_misses s' = 1 \<and> events s' = [NetworkCall ''1 Main St''])"
proof -
  have inner: "ws_variant ''1   Main St'' ''1 Main St''"
    using ws_variant.run [of "''   ''" "'' ''" "''1''" "''Main St''"]
    by (simp add: is_space_def)
  have lead: "ws_variant ''  1   Main St'' ''1   Main St''"
    using ws_variant.leading [of "''  ''" "''1   Main St''"]
    by (simp add: is_space_def)
  have trail: "ws_variant ''  1   Main St  '' ''  1   Main St''"
    using ws_variant.trailing [of "''  ''" "''  1   Main St''"]
    by (simp add: is_space_def)
  from trail lead inner have variant: "ws_variant ''  1   Main St  '' ''1 Main St''"
    by (blast intro: ws_variant.trans)
  have cache: "truthy (cache_file cached_args)"
    by (simp add: cached_args_def truthy_def)
  have key: "normalize_address ''1 Main St'' = ''1 Main St''"
    by (simp add: str_defs)
  have "\<exists>res s. geocode_with_cache cached_args example_world ''1 Main St'' (initial_state [])
                  = (Inr res, s)
          \<and> cache_hits s = 0 \<and> cache_misses s = 1 \<and> events s = [NetworkCall ''1 Main St'']"
    by (simp add: cached_args_def ex_defs run_defs str_defs float_defs Let_def)
  then obtain res s where
    live: "geocode_with_cache cached_args example_world ''1 Main St'' (initial_state [])
             = (Inr res, s)"
    and counters: "cache_hits s = 0" "cache_misses s = 1" "events s = [NetworkCall ''1 Main St'']"
    by blast
  have missed: "cache_misses s = cache_misses (initial_state []) + 1"
    using counters by (simp add: initial_state_def)
  note rt = cache_round_trip [OF cache variant, where w = example_world
      and ?s0.0 = "initial_state []" and res = res and s = s]
  from rt live missed have stored: "map_of (cache_entries s) (normalize_address ''1 Main St'')
      = Some (geocode_result_to_cache_entry res)"
    by blast
  with rt obtain s' where
    hit: "geocode_with_cache cached_args example_world ''  1   Main St  '' s
            = (Inr (res\<lparr>raw := JDict []\<rparr>), s')"
    and after: "cache_hits s' = cache_hits s + 1" "cache_misses s' = cache_misses s"
      "events s' = events s"
    by blast
  from rt have norm: "normalize_address ''  1   Main St  '' = collapse_and_trim ''  1   Main St  ''"
    and same: "normalize_address ''  1   Main St  '' = normalize_address ''1 Main St''"
    by blast+
  from same key have n1: "normalize_address ''  1   Main St  '' = ''1 Main St''"
    by simp
  with norm have n2: "collapse_and_trim ''  1   Main St  '' = ''1 Main St''"
    by simp
  from live counters hit after have
    "geocode_with_cache cached_args example_world ''1 Main St'' (initial_state []) = (Inr res, s)
         \<and> cache_hits s = 0 \<and> cache_misses s = 1 \<and> events s = [NetworkCall ''1 Main St'']
         \<and> geocode_with_cache cached_args example_world ''  1   Main St  '' s
             = (Inr (res\<lparr>raw := JDict []\<rparr>), s')
         \<and> cache_hits s' = 1 \<and> cache_misses s' = 1 \<and> events s' = [NetworkCall ''1 Main St'']"
    by simp
  with variant n1 n2 show ?thesis by blast
qed

end
